theory Spec2Isabelle
  imports Main "HOL-Library.Word" "HOL-Library.Char_ord" "HOL-Library.List_Lexorder"
begin

section \<open>Data model (internal/types.go)\<close>

text \<open>
  Go strings are byte sequences; they are modelled as \<open>string\<close> (a list of \<open>char\<close>,
  one per byte), so \<open>s[:1]\<close> is \<open>take 1 s\<close>.

  \<open>models.Column\<close> belongs to the imported package \<open>xo/models\<close>; only the two
  members read by the template functions are kept. Pointers (\<open>*Field\<close>,
  \<open>*models.Column\<close>, \<open>*Type\<close>, \<open>*ModelToPBConfig\<close>) are taken to be non-nil, so a
  pointer member is modelled by the value it points to.
\<close>

record Column =
  ColumnName :: string
  NotNull :: bool

record Field =
  Name :: string
  Type :: string
  NilType :: string
  Len :: int
  Col :: Column
  Comment :: string

text \<open>
  The struct \<open>Type\<close>: its members carry the prefix \<open>Type\<close> here, because \<open>Name\<close> and
  \<open>Type\<close> are already the selectors of \<open>Field\<close>. Members that no template function
  of this development reads (\<open>PrimaryKey\<close>, \<open>Indexes\<close>, \<open>Table\<close>) are left out.
\<close>

record TypeT =
  TypeName :: string
  TypeSchema :: string
  TypeFields :: "Field list"
  TypeComment :: string
  HasDeletedField :: bool

record QueryParam =
  ParamName :: string
  ParamType :: string
  Interpolate :: bool

record ModelToPBConfig =
  ImportService :: string
  SkipFields :: "string set"  \<comment> \<open>\<open>map[string]struct{}\<close>: a set of column names\<close>

record MethodsOption =
  OptType :: TypeT
  Sub :: string
  ListFields :: bool
  ModelToPB :: bool
  OptConfig :: ModelToPBConfig

type_synonym ProtoConfig = "MethodsOption list"

datatype EscType = SchemaEsc | TableEsc | ColumnEsc

section \<open>The receiver \<open>ArgType\<close> and the imported libraries\<close>

text \<open>
  The declaration of \<open>ArgType\<close> and of its \<open>Loader\<close> is not among the source files at hand.
  The record below has exactly the members that the functions of \<open>internal/funcs.go\<close>
  modelled here read or write, with the types their uses fix. The loader's dialect functions
  \<open>NthParam\<close> and \<open>Escape\<close> are parameters: every theorem holds for all of them.
  A map that is only asked whether a key is present (\<open>_, ok := m[k]\<close>) is modelled by
  its key set.
\<close>

record Loader =
  NthParam :: "int \<Rightarrow> string"
  Escape :: "EscType \<Rightarrow> string \<Rightarrow> string"

record ArgType =
  ShortNameTypeMap :: "string \<rightharpoonup> string"
  NameConflictSuffix :: string
  GeoInfoTypeMap :: "string set"
  EscapeColumnNames :: bool
  ArgLoader :: Loader
  ToPBTypeMap :: "string \<rightharpoonup> string"
  IncompatilbePBType :: "string \<rightharpoonup> bool"
  WrapperTypeMap :: "string \<rightharpoonup> string"
  ImportMap :: "string \<rightharpoonup> string"
  ServerProtoPathPrefix :: string

text \<open>
  Functions of imported packages whose results depend on tables outside this repository
  (the initialisms of \<open>snaker\<close>, the Unicode case tables behind \<open>strings.ToLower\<close> and
  \<open>strings.ToUpper\<close>) are parameters as well.
\<close>

record GoLib =
  CamelToSnake :: "string \<Rightarrow> string"
  ForceLowerCamelIdentifier :: "string \<Rightarrow> string"
  ToLower :: "string \<Rightarrow> string"
  ToUpper :: "string \<Rightarrow> string"

section \<open>String helpers of the Go standard library\<close>

text \<open>\<open>strings.Join(elems, sep)\<close>.\<close>

fun Join :: "string list \<Rightarrow> string \<Rightarrow> string" where
  "Join [] sep = []"
| "Join [x] sep = x"
| "Join (x # y # ys) sep = x @ sep @ Join (y # ys) sep"

text \<open>\<open>strings.Split(s, sep)\<close> for a separator of one byte: the empty string yields one
  empty piece.\<close>

fun Split :: "string \<Rightarrow> char \<Rightarrow> string list" where
  "Split [] c = [[]]"
| "Split (x # xs) c =
     (if x = c then [] # Split xs c
      else (case Split xs c of w # ws \<Rightarrow> (x # w) # ws | [] \<Rightarrow> [[x]]))"

text \<open>Reading a \<open>map[string]bool\<close>: a missing key reads as \<open>false\<close>.\<close>

definition lookupBool :: "(string \<rightharpoonup> bool) \<Rightarrow> string \<Rightarrow> bool" where
  "lookupBool m k = (case m k of Some b \<Rightarrow> b | None \<Rightarrow> False)"

text \<open>\<open>strconv.Itoa\<close>, which is also what \<open>%d\<close> prints for an \<open>int\<close>.\<close>

definition digit :: "nat \<Rightarrow> char" where
  "digit d = ''0123456789'' ! d"

fun digits :: "nat \<Rightarrow> string" where
  "digits n = (if n < 10 then [digit n] else digits (n div 10) @ [digit (n mod 10)])"

declare digits.simps [simp del]

definition Itoa :: "int \<Rightarrow> string" where
  "Itoa i = (if i < 0 then CHR ''-'' # digits (nat (- i)) else digits (nat i))"

section \<open>The ignore maps\<close>

text \<open>\<open>ignore := map[string]bool{}; for _, n := range ignoreNames { ignore[n] = true }\<close>\<close>

definition ignoreNamesMap :: "string list \<Rightarrow> (string \<rightharpoonup> bool)" where
  "ignoreNamesMap ignoreNames = fold (\<lambda>n m. m(n \<mapsto> True)) ignoreNames Map.empty"

text \<open>\<open>for _, f := range ignoreNames { ignore[f.Name] = true }\<close>\<close>

definition ignoreFieldsMap :: "Field list \<Rightarrow> (string \<rightharpoonup> bool)" where
  "ignoreFieldsMap ignoreNames = fold (\<lambda>f m. m(Name f \<mapsto> True)) ignoreNames Map.empty"

section \<open>SQL clause builders (internal/funcs.go)\<close>

definition colname :: "ArgType \<Rightarrow> Column \<Rightarrow> string" where
  "colname a col =
     (if EscapeColumnNames a then Escape (ArgLoader a) ColumnEsc (ColumnName col)
      else ColumnName col)"

text \<open>
  Every builder is a \<open>for\<close> loop over \<open>flds\<close> (the parameter \<open>fields\<close> of the
  source; \<open>fields\<close> is taken in Isabelle) that carries the text \<open>str\<close> and the
  counter \<open>i\<close>. A counter that starts at a literal is bounded by the length of the slice,
  itself an \<open>int\<close>, so it never wraps and is modelled by a mathematical integer. The
  counter of \<open>colnamesquerymulti\<close> starts at the caller's \<open>startCount\<close> and is a machine
  word.
\<close>

fun colnames_loop :: "ArgType \<Rightarrow> (string \<rightharpoonup> bool) \<Rightarrow> Field list \<Rightarrow> string \<Rightarrow> int \<Rightarrow> string" where
  "colnames_loop a ignore [] str i = str"
| "colnames_loop a ignore (f # fs) str i =
     (if lookupBool ignore (Name f) then colnames_loop a ignore fs str i
      else colnames_loop a ignore fs
             ((if i \<noteq> 0 then str @ '', '' else str) @ colname a (Col f)) (i + 1))"

definition colnames :: "ArgType \<Rightarrow> Field list \<Rightarrow> string list \<Rightarrow> string" where
  "colnames a flds ignoreNames = colnames_loop a (ignoreNamesMap ignoreNames) flds [] 0"

fun colnamesgeo_loop :: "ArgType \<Rightarrow> (string \<rightharpoonup> bool) \<Rightarrow> Field list \<Rightarrow> string \<Rightarrow> int \<Rightarrow> string" where
  "colnamesgeo_loop a ignore [] str i = str"
| "colnamesgeo_loop a ignore (f # fs) str i =
     (if lookupBool ignore (Name f) then colnamesgeo_loop a ignore fs str i
      else colnamesgeo_loop a ignore fs
             ((if i \<noteq> 0 then str @ '', '' else str) @
              (if Type f \<in> GeoInfoTypeMap a then ''ST_AsBinary('' @ colname a (Col f) @ '')''
               else colname a (Col f)))
             (i + 1))"

definition colnamesgeo :: "ArgType \<Rightarrow> Field list \<Rightarrow> string list \<Rightarrow> string" where
  "colnamesgeo a flds ignoreNames = colnamesgeo_loop a (ignoreNamesMap ignoreNames) flds [] 0"

fun colnamesmulti_loop :: "ArgType \<Rightarrow> (string \<rightharpoonup> bool) \<Rightarrow> Field list \<Rightarrow> string \<Rightarrow> int \<Rightarrow> string" where
  "colnamesmulti_loop a ignore [] str i = str"
| "colnamesmulti_loop a ignore (f # fs) str i =
     (if lookupBool ignore (Name f) then colnamesmulti_loop a ignore fs str i
      else colnamesmulti_loop a ignore fs
             ((if i \<noteq> 0 then str @ '', '' else str) @ colname a (Col f)) (i + 1))"

definition colnamesmulti :: "ArgType \<Rightarrow> Field list \<Rightarrow> Field list \<Rightarrow> string" where
  "colnamesmulti a flds ignoreNames =
     colnamesmulti_loop a (ignoreFieldsMap ignoreNames) flds [] 0"

fun colnamesgeomulti_loop :: "ArgType \<Rightarrow> (string \<rightharpoonup> bool) \<Rightarrow> Field list \<Rightarrow> string \<Rightarrow> int \<Rightarrow> string" where
  "colnamesgeomulti_loop a ignore [] str i = str"
| "colnamesgeomulti_loop a ignore (f # fs) str i =
     (if lookupBool ignore (Name f) then colnamesgeomulti_loop a ignore fs str i
      else colnamesgeomulti_loop a ignore fs
             ((if i \<noteq> 0 then str @ '', '' else str) @
              (if Type f \<in> GeoInfoTypeMap a then ''ST_AsBinary('' @ colname a (Col f) @ '')''
               else colname a (Col f)))
             (i + 1))"

definition colnamesgeomulti :: "ArgType \<Rightarrow> Field list \<Rightarrow> Field list \<Rightarrow> string" where
  "colnamesgeomulti a flds ignoreNames =
     colnamesgeomulti_loop a (ignoreFieldsMap ignoreNames) flds [] 0"

text \<open>
  \<open>colnamesquery\<close>: the loop also carries \<open>skipDeleted\<close>; the soft-delete predicate is
  appended after the loop.
\<close>

fun colnamesquery_loop ::
  "ArgType \<Rightarrow> (string \<rightharpoonup> bool) \<Rightarrow> string \<Rightarrow> Field list \<Rightarrow> string \<Rightarrow> int \<Rightarrow> bool \<Rightarrow> string \<times> bool" where
  "colnamesquery_loop a ignore sep [] str i skipDeleted = (str, skipDeleted)"
| "colnamesquery_loop a ignore sep (f # fs) str i skipDeleted =
     (if lookupBool ignore (Name f) then colnamesquery_loop a ignore sep fs str i skipDeleted
      else colnamesquery_loop a ignore sep fs
             ((if i \<noteq> 0 then str @ sep else str) @
              (if Type f \<in> GeoInfoTypeMap a
               then colname a (Col f) @ '' = '' @ ''ST_GeomFromWKB(?)''
               else colname a (Col f) @ '' = '' @ NthParam (ArgLoader a) i))
             (i + 1)
             (if Name f = ''is_deleted'' then True else skipDeleted))"

definition colnamesquery :: "ArgType \<Rightarrow> Field list \<Rightarrow> bool \<Rightarrow> string \<Rightarrow> string list \<Rightarrow> string" where
  "colnamesquery a flds hasDeletedField sep ignoreNames =
     (case colnamesquery_loop a (ignoreNamesMap ignoreNames) sep flds [] 0 False of
        (str, skipDeleted) \<Rightarrow>
          if hasDeletedField \<and> \<not> skipDeleted then (str @ sep) @ ''is_deleted = false''
          else str)"

text \<open>
  \<open>colnamesquerymulti\<close>: \<open>i\<close> starts at \<open>startCount\<close>, an \<open>int\<close> of the platform's width
  (the type variable \<open>'w\<close>). \<open>i++\<close> wraps around, \<open>i > startCount\<close> compares signed values,
  and \<open>NthParam\<close> receives the signed value of \<open>i\<close>.
\<close>

fun colnamesquerymulti_loop ::
  "ArgType \<Rightarrow> (string \<rightharpoonup> bool) \<Rightarrow> string \<Rightarrow> 'w::len word \<Rightarrow> Field list \<Rightarrow> string \<Rightarrow> 'w word \<Rightarrow> bool
     \<Rightarrow> string \<times> bool" where
  "colnamesquerymulti_loop a ignore sep startCount [] str i skipDeleted = (str, skipDeleted)"
| "colnamesquerymulti_loop a ignore sep startCount (f # fs) str i skipDeleted =
     (if lookupBool ignore (Name f)
      then colnamesquerymulti_loop a ignore sep startCount fs str i skipDeleted
      else colnamesquerymulti_loop a ignore sep startCount fs
             ((if startCount <s i then str @ sep else str) @
              (if Type f \<in> GeoInfoTypeMap a
               then colname a (Col f) @ '' = '' @ ''ST_GeomFromWKB(?)''
               else colname a (Col f) @ '' = '' @ NthParam (ArgLoader a) (sint i)))
             (i + 1)
             (if Name f = ''is_deleted'' then True else skipDeleted))"

definition colnamesquerymulti ::
  "ArgType \<Rightarrow> Field list \<Rightarrow> bool \<Rightarrow> string \<Rightarrow> 'w::len word \<Rightarrow> Field list \<Rightarrow> string" where
  "colnamesquerymulti a flds hasDeletedField sep startCount ignoreNames =
     (case colnamesquerymulti_loop a (ignoreFieldsMap ignoreNames) sep startCount flds []
             startCount False of
        (str, skipDeleted) \<Rightarrow>
          if hasDeletedField \<and> \<not> skipDeleted then (str @ sep) @ ''is_deleted = false''
          else str)"

fun colprefixnames_loop ::
  "ArgType \<Rightarrow> (string \<rightharpoonup> bool) \<Rightarrow> string \<Rightarrow> Field list \<Rightarrow> string \<Rightarrow> int \<Rightarrow> string" where
  "colprefixnames_loop a ignore prefix [] str i = str"
| "colprefixnames_loop a ignore prefix (f # fs) str i =
     (if lookupBool ignore (Name f) then colprefixnames_loop a ignore prefix fs str i
      else colprefixnames_loop a ignore prefix fs
             ((if i \<noteq> 0 then str @ '', '' else str) @ prefix @ ''.'' @ colname a (Col f))
             (i + 1))"

definition colprefixnames :: "ArgType \<Rightarrow> Field list \<Rightarrow> string \<Rightarrow> string list \<Rightarrow> string" where
  "colprefixnames a flds prefix ignoreNames =
     colprefixnames_loop a (ignoreNamesMap ignoreNames) prefix flds [] 0"

fun colvals_loop :: "ArgType \<Rightarrow> (string \<rightharpoonup> bool) \<Rightarrow> Field list \<Rightarrow> string \<Rightarrow> int \<Rightarrow> string" where
  "colvals_loop a ignore [] str i = str"
| "colvals_loop a ignore (f # fs) str i =
     (if lookupBool ignore (Name f) then colvals_loop a ignore fs str i
      else colvals_loop a ignore fs
             ((if i \<noteq> 0 then str @ '', '' else str) @
              (if Type f \<in> GeoInfoTypeMap a then ''ST_GeomFromWKB(?)''
               else NthParam (ArgLoader a) i))
             (i + 1))"

definition colvals :: "ArgType \<Rightarrow> Field list \<Rightarrow> string list \<Rightarrow> string" where
  "colvals a flds ignoreNames = colvals_loop a (ignoreNamesMap ignoreNames) flds [] 0"

fun colvalsmulti_loop :: "ArgType \<Rightarrow> (string \<rightharpoonup> bool) \<Rightarrow> Field list \<Rightarrow> string \<Rightarrow> int \<Rightarrow> string" where
  "colvalsmulti_loop a ignore [] str i = str"
| "colvalsmulti_loop a ignore (f # fs) str i =
     (if lookupBool ignore (Name f) then colvalsmulti_loop a ignore fs str i
      else colvalsmulti_loop a ignore fs
             ((if i \<noteq> 0 then str @ '', '' else str) @
              (if Type f \<in> GeoInfoTypeMap a then ''ST_GeomFromWKB(?)''
               else NthParam (ArgLoader a) i))
             (i + 1))"

definition colvalsmulti :: "ArgType \<Rightarrow> Field list \<Rightarrow> Field list \<Rightarrow> string" where
  "colvalsmulti a flds ignoreNames =
     colvalsmulti_loop a (ignoreFieldsMap ignoreNames) flds [] 0"

fun fieldnames_loop :: "(string \<rightharpoonup> bool) \<Rightarrow> string \<Rightarrow> Field list \<Rightarrow> string \<Rightarrow> int \<Rightarrow> string" where
  "fieldnames_loop ignore prefix [] str i = str"
| "fieldnames_loop ignore prefix (f # fs) str i =
     (if lookupBool ignore (Name f) then fieldnames_loop ignore prefix fs str i
      else fieldnames_loop ignore prefix fs
             ((if i \<noteq> 0 then str @ '', '' else str) @ prefix @ ''.'' @ Name f) (i + 1))"

definition fieldnames :: "ArgType \<Rightarrow> Field list \<Rightarrow> string \<Rightarrow> string list \<Rightarrow> string" where
  "fieldnames a flds prefix ignoreNames =
     fieldnames_loop (ignoreNamesMap ignoreNames) prefix flds [] 0"

fun fieldnamesmulti_loop :: "(string \<rightharpoonup> bool) \<Rightarrow> string \<Rightarrow> Field list \<Rightarrow> string \<Rightarrow> int \<Rightarrow> string" where
  "fieldnamesmulti_loop ignore prefix [] str i = str"
| "fieldnamesmulti_loop ignore prefix (f # fs) str i =
     (if lookupBool ignore (Name f) then fieldnamesmulti_loop ignore prefix fs str i
      else fieldnamesmulti_loop ignore prefix fs
             ((if i \<noteq> 0 then str @ '', '' else str) @ prefix @ ''.'' @ Name f) (i + 1))"

definition fieldnamesmulti :: "ArgType \<Rightarrow> Field list \<Rightarrow> string \<Rightarrow> Field list \<Rightarrow> string" where
  "fieldnamesmulti a flds prefix ignoreNames =
     fieldnamesmulti_loop (ignoreFieldsMap ignoreNames) prefix flds [] 0"



section \<open>Short names (internal/funcs.go)\<close>

text \<open>\<open>goReservedNames\<close>, the table of Go reserved names and their safe names.\<close>

definition goReservedTable :: "(string \<times> string) list" where
  "goReservedTable =
     [(''break'', ''brk''), (''case'', ''cs''), (''chan'', ''chn''), (''const'', ''cnst''),
      (''continue'', ''cnt''), (''default'', ''def''), (''defer'', ''dfr''), (''else'', ''els''),
      (''fallthrough'', ''flthrough''), (''for'', ''fr''), (''func'', ''fn''), (''go'', ''goVal''),
      (''goto'', ''gt''), (''if'', ''ifVal''), (''import'', ''imp''), (''interface'', ''iface''),
      (''map'', ''mp''), (''package'', ''pkg''), (''range'', ''rnge''), (''return'', ''ret''),
      (''select'', ''slct''), (''struct'', ''strct''), (''switch'', ''swtch''), (''type'', ''typ''),
      (''var'', ''vr''),
      (''error'', ''e''), (''bool'', ''b''), (''string'', ''str''), (''byte'', ''byt''),
      (''rune'', ''r''), (''uintptr'', ''uptr''), (''int'', ''i''), (''int8'', ''i8''),
      (''int16'', ''i16''), (''int32'', ''i32''), (''int64'', ''i64''), (''uint'', ''u''),
      (''uint8'', ''u8''), (''uint16'', ''u16''), (''uint32'', ''u32''), (''uint64'', ''u64''),
      (''float32'', ''z''), (''float64'', ''f''), (''complex64'', ''c''),
      (''complex128'', ''c128'')]"

definition goReservedNames :: "string \<rightharpoonup> string" where
  "goReservedNames = map_of goReservedTable"

text \<open>
  The variadic \<open>scopeConflicts ...interface{}\<close>: one constructor for each dynamic type the
  type switch recognises, and \<open>ScopeOther\<close> for a value of any other type (\<open>nil\<close>
  included), which reaches \<open>default: panic("not implemented")\<close>.
\<close>

datatype scopeConflict =
    ScopeString string
  | ScopeFields "Field list"
  | ScopeQueryParams "QueryParam list"
  | ScopeOther

datatype panic = NotImplemented

text \<open>The loop that collects the first byte of every word other than \<open>id\<close>.\<close>

fun shortname_words :: "string list \<Rightarrow> string list \<Rightarrow> string list" where
  "shortname_words [] u = u"
| "shortname_words (s # ss) u =
     (if length s > 0 \<and> s \<noteq> ''id'' then shortname_words ss (u @ [take 1 s])
      else shortname_words ss u)"

definition defaultConflicts :: "string \<rightharpoonup> bool" where
  "defaultConflicts =
     [''sql'' \<mapsto> True, ''driver'' \<mapsto> True, ''csv'' \<mapsto> True, ''errors'' \<mapsto> True,
      ''fmt'' \<mapsto> True, ''regexp'' \<mapsto> True, ''strings'' \<mapsto> True, ''time'' \<mapsto> True]"

fun addScopeConflicts :: "scopeConflict list \<Rightarrow> (string \<rightharpoonup> bool) \<Rightarrow> panic + (string \<rightharpoonup> bool)" where
  "addScopeConflicts [] conflicts = Inr conflicts"
| "addScopeConflicts (ScopeString k # cs) conflicts = addScopeConflicts cs (conflicts(k \<mapsto> True))"
| "addScopeConflicts (ScopeFields k # cs) conflicts =
     addScopeConflicts cs (fold (\<lambda>f m. m(Name f \<mapsto> True)) k conflicts)"
| "addScopeConflicts (ScopeQueryParams k # cs) conflicts =
     addScopeConflicts cs (fold (\<lambda>f m. m(ParamName f \<mapsto> True)) k conflicts)"
| "addScopeConflicts (ScopeOther # cs) conflicts = Inl NotImplemented"

text \<open>
  \<open>shortname\<close> writes \<open>a.ShortNameTypeMap\<close>, so it returns the receiver together with the
  identifier; a panic is the value \<open>Inl NotImplemented\<close>.
\<close>

definition shortname ::
  "GoLib \<Rightarrow> ArgType \<Rightarrow> string \<Rightarrow> scopeConflict list \<Rightarrow> panic + (string \<times> ArgType)" where
  "shortname L a typ scopeConflicts =
     (case (case ShortNameTypeMap a typ of
              Some v \<Rightarrow> (v, a)
            | None \<Rightarrow>
                (let v = Join (shortname_words (Split (ToLower L (CamelToSnake L typ)) CHR ''_'') []) [];
                     v = (case goReservedNames v of Some n \<Rightarrow> n | None \<Rightarrow> v)
                 in (v, a\<lparr>ShortNameTypeMap := (ShortNameTypeMap a)(typ \<mapsto> v)\<rparr>))) of
        (v, a') \<Rightarrow>
          (case addScopeConflicts scopeConflicts defaultConflicts of
             Inl e \<Rightarrow> Inl e
           | Inr conflicts \<Rightarrow>
               Inr (if conflicts v \<noteq> None then v @ NameConflictSuffix a' else v, a')))"

section \<open>Protobuf bridge (internal/funcs.go)\<close>

definition NL :: string where
  "NL = [CHR 0x0A]"

definition TAB :: string where
  "TAB = [CHR 0x09]"

definition DQ :: string where
  "DQ = [CHR 0x22]"

fun SnakeToCamel_loop :: "GoLib \<Rightarrow> string list \<Rightarrow> string \<Rightarrow> string" where
  "SnakeToCamel_loop L [] r = r"
| "SnakeToCamel_loop L (w # ws) r =
     (if w = [] then SnakeToCamel_loop L ws r
      else SnakeToCamel_loop L ws (r @ ToUpper L (take 1 w) @ ToLower L (drop 1 w)))"

definition SnakeToCamelWithoutInitialisms :: "GoLib \<Rightarrow> string \<Rightarrow> string" where
  "SnakeToCamelWithoutInitialisms L str = SnakeToCamel_loop L (Split str CHR ''_'') []"

text \<open>\<open>strings.ReplaceAll\<close> with patterns of one byte.\<close>

definition goPackageName :: "string \<Rightarrow> string" where
  "goPackageName name = filter (\<lambda>c. c \<noteq> CHR ''_'') (filter (\<lambda>c. c \<noteq> CHR ''-'') name)"

definition ProtoName :: "string \<Rightarrow> string" where
  "ProtoName name = map (\<lambda>c. if c = CHR ''-'' then CHR ''_'' else c) name"

text \<open>\<open>strings.Trim(s, cutset)\<close> for an ASCII cutset, and \<open>strings.TrimSuffix\<close>.\<close>

definition Trim :: "string \<Rightarrow> string \<Rightarrow> string" where
  "Trim s cutset =
     rev (dropWhile (\<lambda>c. c \<in> set cutset) (rev (dropWhile (\<lambda>c. c \<in> set cutset) s)))"

definition TrimSuffix :: "string \<Rightarrow> string \<Rightarrow> string" where
  "TrimSuffix s suffix =
     (if length suffix \<le> length s \<and> drop (length s - length suffix) s = suffix
      then take (length s - length suffix) s else s)"

text \<open>
  \<open>modelToPB\<close>. The first loop builds the struct literal of the non-nullable fields
  (and the timestamp conversions that precede it); the second loop appends the guarded
  assignments of the nullable fields. \<open>log.Printf\<close> is modelled by the list of messages.
\<close>

fun modelToPB_loop1 ::
  "GoLib \<Rightarrow> ArgType \<Rightarrow> MethodsOption \<Rightarrow> string \<Rightarrow> Field list \<Rightarrow> string \<Rightarrow> string list
     \<Rightarrow> string \<times> string list" where
  "modelToPB_loop1 L a option shortName [] body fieldsAssignment = (body, fieldsAssignment)"
| "modelToPB_loop1 L a option shortName (field # fs) body fieldsAssignment =
     (if ColumnName (Col field) \<in> SkipFields (OptConfig option)
      then modelToPB_loop1 L a option shortName fs body fieldsAssignment
      else if \<not> NotNull (Col field) \<and> Type field \<noteq> ''[]byte''
      then modelToPB_loop1 L a option shortName fs body fieldsAssignment
      else if Type field = ''time.Time''
      then (let f = ForceLowerCamelIdentifier L (ColumnName (Col field))
            in modelToPB_loop1 L a option shortName fs
                 (body @ f @ '', err := ptypes.TimestampProto('' @ shortName @ ''.'' @ Name field
                    @ '')'' @ NL @ TAB @ ''if err != nil {'' @ NL @ TAB @ TAB @ ''return nil, err''
                    @ NL @ TAB @ ''}'' @ NL)
                 (fieldsAssignment @
                    [SnakeToCamelWithoutInitialisms L (ColumnName (Col field)) @ '':'' @ f @ '','']))
      else modelToPB_loop1 L a option shortName fs body
             (fieldsAssignment @
                [case ToPBTypeMap a (Type field) of
                   Some t \<Rightarrow>
                     if \<not> lookupBool (IncompatilbePBType a) t
                     then SnakeToCamelWithoutInitialisms L (ColumnName (Col field)) @ '':'' @ t
                            @ ''('' @ shortName @ ''.'' @ Name field @ ''),''
                     else SnakeToCamelWithoutInitialisms L (ColumnName (Col field)) @ '':''
                            @ shortName @ ''.'' @ Name field @ '',''
                 | None \<Rightarrow>
                     SnakeToCamelWithoutInitialisms L (ColumnName (Col field)) @ '':''
                       @ shortName @ ''.'' @ Name field @ '','']))"

definition nullWarning :: "MethodsOption \<Rightarrow> Field \<Rightarrow> string" where
  "nullWarning option field =
     ''WARN: '' @ TypeName (OptType option) @ ''.'' @ Name field @ '' could be null, skipping!''"

fun modelToPB_loop2 ::
  "GoLib \<Rightarrow> ArgType \<Rightarrow> MethodsOption \<Rightarrow> string \<Rightarrow> Field list \<Rightarrow> string \<Rightarrow> string list
     \<Rightarrow> string \<times> string list" where
  "modelToPB_loop2 L a option shortName [] body logged = (body, logged)"
| "modelToPB_loop2 L a option shortName (field # fs) body logged =
     (if NotNull (Col field) \<or> Type field = ''[]byte''
      then modelToPB_loop2 L a option shortName fs body logged
      else if ColumnName (Col field) \<in> SkipFields (OptConfig option)
      then modelToPB_loop2 L a option shortName fs body logged
      else (let s = SnakeToCamelWithoutInitialisms L (ColumnName (Col field))
            in if Type field = ''mysql.NullTime''
               then (let f = ForceLowerCamelIdentifier L (ColumnName (Col field))
                     in modelToPB_loop2 L a option shortName fs
                          (body @ ''if '' @ shortName @ ''.'' @ Name field @ ''.Valid {'' @ NL
                             @ TAB @ f @ '', err := ptypes.TimestampProto('' @ shortName @ ''.''
                             @ Name field @ ''.Time)'' @ NL
                             @ TAB @ ''if err != nil {'' @ NL
                             @ TAB @ TAB @ ''return nil, err'' @ NL
                             @ TAB @ ''}'' @ NL
                             @ TAB @ ''proto'' @ TypeName (OptType option) @ ''.'' @ s @ '' = '' @ f
                             @ NL @ ''}'' @ NL)
                          logged)
               else (case WrapperTypeMap a (Type field) of
                       Some typ \<Rightarrow>
                         modelToPB_loop2 L a option shortName fs
                           (body @ ''if '' @ shortName @ ''.'' @ Name field @ ''.Valid {'' @ NL
                              @ TAB @ ''proto'' @ TypeName (OptType option) @ ''.'' @ s
                              @ '' = &wrappers.'' @ typ @ ''{Value:'' @ shortName @ ''.''
                              @ Name field @ ''.'' @ Trim typ ''Value'' @ ''}'' @ NL
                              @ ''}'' @ NL)
                           logged
                     | None \<Rightarrow>
                         modelToPB_loop2 L a option shortName fs (body @ [])
                           (logged @ [nullWarning option field]))))"

text \<open>
  The result of \<open>modelToPB\<close>: the generated text, the messages logged, and the receiver
  (whose short-name cache \<open>shortname\<close> may have extended).
\<close>

definition modelToPB ::
  "GoLib \<Rightarrow> ArgType \<Rightarrow> MethodsOption \<Rightarrow> panic + (string \<times> string list \<times> ArgType)" where
  "modelToPB L a option =
     (if \<not> ModelToPB option then Inr ([], [], a)
      else (case shortname L a (TypeName (OptType option)) [] of
              Inl e \<Rightarrow> Inl e
            | Inr (shortName, a') \<Rightarrow>
                (case modelToPB_loop1 L a' option shortName (TypeFields (OptType option)) [] [] of
                   (body, fieldsAssignment) \<Rightarrow>
                     (case modelToPB_loop2 L a' option shortName (TypeFields (OptType option))
                             (body @ ''proto'' @ TypeName (OptType option) @ '' := &''
                                @ goPackageName (ImportService (OptConfig option)) @ ''.''
                                @ TypeName (OptType option) @ ''{'' @ NL
                                @ TAB @ Join fieldsAssignment NL @ NL
                                @ ''}'' @ NL)
                             [] of
                        (body, logged) \<Rightarrow>
                          Inr (body @ NL @ ''return proto'' @ TypeName (OptType option) @ '', nil'',
                               logged, a')))))"

fun PBToModel_loop1 ::
  "GoLib \<Rightarrow> ArgType \<Rightarrow> MethodsOption \<Rightarrow> Field list \<Rightarrow> string \<Rightarrow> string list
     \<Rightarrow> string \<times> string list" where
  "PBToModel_loop1 L a option [] body fieldsAssignment = (body, fieldsAssignment)"
| "PBToModel_loop1 L a option (field # fs) body fieldsAssignment =
     (if ColumnName (Col field) \<in> SkipFields (OptConfig option)
      then PBToModel_loop1 L a option fs body fieldsAssignment
      else if \<not> NotNull (Col field) \<and> Type field \<noteq> ''[]byte''
      then PBToModel_loop1 L a option fs body fieldsAssignment
      else if Type field = ''time.Time''
      then (let f = ForceLowerCamelIdentifier L (ColumnName (Col field))
            in PBToModel_loop1 L a option fs
                 (body @ f @ '', err := ptypes.Timestamp(proto'' @ TypeName (OptType option)
                    @ ''.'' @ Name field @ '')'' @ NL
                    @ TAB @ ''if err != nil {'' @ NL @ TAB @ TAB @ ''return nil, err''
                    @ NL @ TAB @ ''}'' @ NL)
                 (fieldsAssignment @ [Name field @ '':'' @ f @ '','']))
      else PBToModel_loop1 L a option fs body
             (fieldsAssignment @
                [case ToPBTypeMap a (Type field) of
                   Some t \<Rightarrow>
                     if \<not> lookupBool (IncompatilbePBType a) t
                     then Name field @ '':'' @ Type field @ ''(proto'' @ TypeName (OptType option)
                            @ ''.'' @ SnakeToCamelWithoutInitialisms L (ColumnName (Col field))
                            @ ''),''
                     else Name field @ '':proto'' @ TypeName (OptType option) @ ''.''
                            @ SnakeToCamelWithoutInitialisms L (ColumnName (Col field)) @ '',''
                 | None \<Rightarrow>
                     Name field @ '':proto'' @ TypeName (OptType option) @ ''.''
                       @ SnakeToCamelWithoutInitialisms L (ColumnName (Col field)) @ '','']))"

fun PBToModel_loop2 ::
  "GoLib \<Rightarrow> ArgType \<Rightarrow> MethodsOption \<Rightarrow> string \<Rightarrow> Field list \<Rightarrow> string \<Rightarrow> string list
     \<Rightarrow> string \<times> string list" where
  "PBToModel_loop2 L a option shortName [] body logged = (body, logged)"
| "PBToModel_loop2 L a option shortName (field # fs) body logged =
     (if ColumnName (Col field) \<in> SkipFields (OptConfig option)
      then PBToModel_loop2 L a option shortName fs body logged
      else if NotNull (Col field) \<or> Type field = ''[]byte''
      then PBToModel_loop2 L a option shortName fs body logged
      else (let s = SnakeToCamelWithoutInitialisms L (ColumnName (Col field))
            in if Type field = ''mysql.NullTime''
               then (let f = ForceLowerCamelIdentifier L (ColumnName (Col field))
                     in PBToModel_loop2 L a option shortName fs
                          (body @ ''if proto'' @ TypeName (OptType option) @ ''.'' @ s
                             @ '' != nil {'' @ NL
                             @ TAB @ f @ '', err := ptypes.Timestamp(proto''
                             @ TypeName (OptType option) @ ''.'' @ s @ '')'' @ NL
                             @ TAB @ ''if err != nil {'' @ NL
                             @ TAB @ TAB @ ''return nil, err'' @ NL
                             @ TAB @ ''}'' @ NL
                             @ TAB @ shortName @ ''.'' @ Name field @ '' = mysql.NullTime{Time:''
                             @ f @ '', Valid:true}'' @ NL
                             @ ''}'' @ NL)
                          logged)
               else (case WrapperTypeMap a (Type field) of
                       Some typ \<Rightarrow>
                         PBToModel_loop2 L a option shortName fs
                           (body @ ''if proto'' @ TypeName (OptType option) @ ''.'' @ s
                              @ '' != nil {'' @ NL
                              @ TAB @ shortName @ ''.'' @ Name field @ '' = '' @ Type field
                              @ ''{'' @ TrimSuffix typ ''Value'' @ '':proto''
                              @ TypeName (OptType option) @ ''.'' @ s @ ''.Value, Valid:true}'' @ NL
                              @ ''}'' @ NL)
                           logged
                     | None \<Rightarrow>
                         PBToModel_loop2 L a option shortName fs (body @ [])
                           (logged @ [nullWarning option field]))))"

definition PBToModel ::
  "GoLib \<Rightarrow> ArgType \<Rightarrow> MethodsOption \<Rightarrow> panic + (string \<times> string list \<times> ArgType)" where
  "PBToModel L a option =
     (if \<not> ModelToPB option then Inr ([], [], a)
      else (case shortname L a (TypeName (OptType option)) [] of
              Inl e \<Rightarrow> Inl e
            | Inr (shortName, a') \<Rightarrow>
                (case PBToModel_loop1 L a' option (TypeFields (OptType option)) [] [] of
                   (body, fieldsAssignment) \<Rightarrow>
                     (case PBToModel_loop2 L a' option shortName (TypeFields (OptType option))
                             (body @ shortName @ '' := &'' @ TypeName (OptType option) @ ''{'' @ NL
                                @ TAB @ Join fieldsAssignment NL @ NL
                                @ ''}'' @ NL)
                             [] of
                        (body, logged) \<Rightarrow>
                          Inr (body @ NL @ ''return '' @ shortName @ '', nil'', logged, a')))))"

text \<open>
  \<open>proto\<close>. \<open>sort.Stable(pc)\<close> with \<open>Less\<close> comparing \<open>Sub\<close> by \<open>strings.Compare\<close>
  is the stable sort by \<open>Sub\<close> in the bytewise lexicographic order; it reorders the
  caller's slice, so \<open>proto\<close> returns the slice beside the text.
\<close>

fun proto_imports_fields ::
  "ArgType \<Rightarrow> MethodsOption \<Rightarrow> Field list \<Rightarrow> string list \<Rightarrow> string set \<Rightarrow> string list \<times> string set" where
  "proto_imports_fields a p [] imports m = (imports, m)"
| "proto_imports_fields a p (f # fs) imports m =
     (if ColumnName (Col f) \<in> SkipFields (OptConfig p) then proto_imports_fields a p fs imports m
      else (case ImportMap a (Type f) of
              Some i \<Rightarrow>
                if i \<in> m then proto_imports_fields a p fs imports m
                else proto_imports_fields a p fs (imports @ [''import '' @ DQ @ i @ DQ @ '';''])
                       (insert i m)
            | None \<Rightarrow> proto_imports_fields a p fs imports m))"

fun proto_imports ::
  "ArgType \<Rightarrow> MethodsOption list \<Rightarrow> string list \<Rightarrow> string set \<Rightarrow> string list" where
  "proto_imports a [] imports m = imports"
| "proto_imports a (p # ps) imports m =
     (case proto_imports_fields a p (TypeFields (OptType p)) imports m of
        (imports', m') \<Rightarrow> proto_imports a ps imports' m')"

text \<open>The definition line of one field, with the field number \<open>count\<close>.\<close>

definition proto_def :: "ArgType \<Rightarrow> Field \<Rightarrow> int \<Rightarrow> string" where
  "proto_def a f count =
     (let def = TAB @ Type f @ '' '' @ ColumnName (Col f) @ '' = '' @ Itoa count @ '';'';
          def = (case ToPBTypeMap a (Type f) of
                   Some v \<Rightarrow> TAB @ v @ '' '' @ ColumnName (Col f) @ '' = '' @ Itoa count @ '';''
                 | None \<Rightarrow> def);
          def = (case WrapperTypeMap a (Type f) of
                   Some v \<Rightarrow> TAB @ ''google.protobuf.'' @ v @ '' '' @ ColumnName (Col f) @ '' = ''
                              @ Itoa count @ '';''
                 | None \<Rightarrow> def);
          def = (if Type f = ''mysql.NullTime'' \<or> Type f = ''time.Time''
                 then TAB @ ''google.protobuf.Timestamp '' @ ColumnName (Col f) @ '' = ''
                        @ Itoa count @ '';''
                 else def)
      in if Comment f \<noteq> [] then Comment f @ NL @ def else def)"

fun proto_fieldsDef ::
  "ArgType \<Rightarrow> MethodsOption \<Rightarrow> Field list \<Rightarrow> string list \<Rightarrow> int \<Rightarrow> string list" where
  "proto_fieldsDef a p [] fieldsDef count = fieldsDef"
| "proto_fieldsDef a p (f # fs) fieldsDef count =
     (if ColumnName (Col f) \<in> SkipFields (OptConfig p) then proto_fieldsDef a p fs fieldsDef count
      else proto_fieldsDef a p fs (fieldsDef @ [proto_def a f count]) (count + 1))"

text \<open>The text of one message, and of the file header that precedes the messages.\<close>

definition proto_message :: "ArgType \<Rightarrow> MethodsOption \<Rightarrow> string" where
  "proto_message a p =
     ''message '' @ TypeName (OptType p) @ '' {'' @ NL
       @ Join (proto_fieldsDef a p (TypeFields (OptType p)) [] 1) NL @ NL
       @ ''}'' @ NL"

fun proto_messages :: "ArgType \<Rightarrow> MethodsOption list \<Rightarrow> string \<Rightarrow> string" where
  "proto_messages a [] body = body"
| "proto_messages a (p # ps) body = proto_messages a ps (body @ proto_message a p)"

definition proto_header :: "ArgType \<Rightarrow> string \<Rightarrow> string list \<Rightarrow> string" where
  "proto_header a svc imports =
     ''package proto.'' @ ProtoName svc @ '';'' @ NL
       @ NL
       @ Join imports NL @ NL
       @ NL
       @ ''option go_package = '' @ DQ @ ServerProtoPathPrefix a @ ''/service/''
       @ goPackageName svc @ DQ @ '';'' @ NL
       @ ''option java_multiple_files = true;'' @ NL
       @ ''option objc_class_prefix = '' @ DQ @ ''RPC'' @ DQ @ '';'' @ NL
       @ NL"

definition proto :: "ArgType \<Rightarrow> ProtoConfig \<Rightarrow> string \<times> ProtoConfig" where
  "proto a pc =
     (if length pc = 0 then ([], pc)
      else (let pc = sort_key Sub pc;
                svc = ImportService (OptConfig (pc ! 0));
                imports = proto_imports a pc [] {}
            in (proto_messages a pc ([] @ proto_header a svc imports), pc)))"

text \<open>What a call that did not panic generated and logged.\<close>

definition generated :: "panic + (string \<times> string list \<times> ArgType) \<Rightarrow> string" where
  "generated r = (case r of Inr (body, logged, a') \<Rightarrow> body | Inl e \<Rightarrow> [])"

definition logged :: "panic + (string \<times> string list \<times> ArgType) \<Rightarrow> string list" where
  "logged r = (case r of Inr (body, ws, a') \<Rightarrow> ws | Inl e \<Rightarrow> [])"

section \<open>Closed forms used to state the results\<close>

text \<open>What one field contributes to the output of a builder, at position \<open>k\<close>.\<close>

definition placeholder :: "ArgType \<Rightarrow> Field \<Rightarrow> int \<Rightarrow> string" where
  "placeholder a f k =
     (if Type f \<in> GeoInfoTypeMap a then ''ST_GeomFromWKB(?)'' else NthParam (ArgLoader a) k)"

definition queryClause :: "ArgType \<Rightarrow> Field \<Rightarrow> int \<Rightarrow> string" where
  "queryClause a f k = colname a (Col f) @ '' = '' @ placeholder a f k"

definition geoColname :: "ArgType \<Rightarrow> Field \<Rightarrow> string" where
  "geoColname a f =
     (if Type f \<in> GeoInfoTypeMap a then ''ST_AsBinary('' @ colname a (Col f) @ '')''
      else colname a (Col f))"

text \<open>The soft-delete predicate that the query builders append after the emitted fields.\<close>

definition softDelete :: "bool \<Rightarrow> string \<Rightarrow> Field list \<Rightarrow> string" where
  "softDelete hasDeletedField sep emitted =
     (if hasDeletedField \<and> ''is_deleted'' \<notin> Name ` set emitted then sep @ ''is_deleted = false''
      else [])"

text \<open>
  The identifier that \<open>shortname\<close> computes when the type is not in the cache: the first
  byte of every word of the lower-cased snake form, the empty words and the words \<open>id\<close>
  dropped.
\<close>

definition initials :: "GoLib \<Rightarrow> string \<Rightarrow> string" where
  "initials L typ =
     concat (map (take 1) [s \<leftarrow> Split (ToLower L (CamelToSnake L typ)) CHR ''_''. s \<noteq> [] \<and> s \<noteq> ''id''])"

text \<open>The substitution of a reserved name by its safe name.\<close>

definition safeName :: "string \<Rightarrow> string" where
  "safeName v = (case goReservedNames v of Some n \<Rightarrow> n | None \<Rightarrow> v)"

text \<open>
  The names in conflict: the default imported packages and the names the scope arguments
  supply.
\<close>

fun scopeNames :: "scopeConflict \<Rightarrow> string set" where
  "scopeNames (ScopeString k) = {k}"
| "scopeNames (ScopeFields k) = Name ` set k"
| "scopeNames (ScopeQueryParams k) = ParamName ` set k"
| "scopeNames ScopeOther = {}"

definition conflictNames :: "scopeConflict list \<Rightarrow> string set" where
  "conflictNames cs =
     {''sql'', ''driver'', ''csv'', ''errors'', ''fmt'', ''regexp'', ''strings'', ''time''}
       \<union> (\<Union>c \<in> set cs. scopeNames c)"

text \<open>
  The nullable fields for which the conversion bodies have no case: not skipped, not
  \<open>[]byte\<close>, not \<open>mysql.NullTime\<close>, and without an entry in \<open>WrapperTypeMap\<close>.
\<close>

definition unmappedNullable :: "ArgType \<Rightarrow> MethodsOption \<Rightarrow> Field \<Rightarrow> bool" where
  "unmappedNullable a option field \<longleftrightarrow>
     \<not> NotNull (Col field) \<and> Type field \<noteq> ''[]byte''
     \<and> ColumnName (Col field) \<notin> SkipFields (OptConfig option)
     \<and> Type field \<noteq> ''mysql.NullTime'' \<and> WrapperTypeMap a (Type field) = None"

text \<open>The same option for a type with other fields, and with a column taken out of the skip set.\<close>

definition withFields :: "MethodsOption \<Rightarrow> Field list \<Rightarrow> MethodsOption" where
  "withFields option fs = option\<lparr>OptType := (OptType option)\<lparr>TypeFields := fs\<rparr>\<rparr>"

definition unskip :: "MethodsOption \<Rightarrow> string \<Rightarrow> MethodsOption" where
  "unskip p c = p\<lparr>OptConfig := (OptConfig p)\<lparr>SkipFields := SkipFields (OptConfig p) - {c}\<rparr>\<rparr>"

text \<open>The part of a field's definition line that precedes the field number.\<close>

definition protoDecl :: "ArgType \<Rightarrow> Field \<Rightarrow> string" where
  "protoDecl a f =
     (if Comment f \<noteq> [] then Comment f @ NL else [])
       @ TAB
       @ (if Type f = ''mysql.NullTime'' \<or> Type f = ''time.Time'' then ''google.protobuf.Timestamp''
          else (case WrapperTypeMap a (Type f) of
                  Some v \<Rightarrow> ''google.protobuf.'' @ v
                | None \<Rightarrow> (case ToPBTypeMap a (Type f) of Some v \<Rightarrow> v | None \<Rightarrow> Type f)))
       @ '' '' @ ColumnName (Col f)"

text \<open>
  The loop shared by the builders whose counter starts at 0, with the text of a field and
  the separator as parameters. Each builder's own loop is shown equal to an instance of it.
\<close>

fun sepLoop :: "(int \<Rightarrow> Field \<Rightarrow> string) \<Rightarrow> string \<Rightarrow> (string \<rightharpoonup> bool) \<Rightarrow> Field list \<Rightarrow> string \<Rightarrow> int \<Rightarrow> string" where
  "sepLoop item sep ig [] str i = str"
| "sepLoop item sep ig (f # fs) str i =
     (if lookupBool ig (Name f) then sepLoop item sep ig fs str i
      else sepLoop item sep ig fs ((if i \<noteq> 0 then str @ sep else str) @ item i f) (i + 1))"

section \<open>Sample inputs\<close>

text \<open>
  A sample configuration for the concrete instances below: a dialect whose placeholder for
  position \<open>i\<close> is \<open>$i\<close>, no escaping, and one geometry type.
\<close>

definition exLoader :: Loader where
  "exLoader = \<lparr>NthParam = (\<lambda>i. CHR ''$'' # Itoa i), Escape = (\<lambda>t s. s)\<rparr>"

definition exArgs :: ArgType where
  "exArgs = \<lparr>ShortNameTypeMap = Map.empty, NameConflictSuffix = ''Val'',
     GeoInfoTypeMap = {''Point''}, EscapeColumnNames = False, ArgLoader = exLoader,
     ToPBTypeMap = [''int'' \<mapsto> ''int64''], IncompatilbePBType = Map.empty,
     WrapperTypeMap = [''sql.NullString'' \<mapsto> ''StringValue''],
     ImportMap = [''time.Time'' \<mapsto> ''google/protobuf/timestamp.proto''],
     ServerProtoPathPrefix = ''example.com/api''\<rparr>"

definition exField :: "string \<Rightarrow> string \<Rightarrow> string \<Rightarrow> bool \<Rightarrow> Field" where
  "exField name typ column notNull =
     \<lparr>Name = name, Type = typ, NilType = [], Len = 0,
      Col = \<lparr>ColumnName = column, NotNull = notNull\<rparr>, Comment = []\<rparr>"

text \<open>
  A sample instance of the imported functions: \<open>ToLower\<close> and \<open>ToUpper\<close> on ASCII text,
  and the values of the \<open>snaker\<close> functions at the identifiers used in the instances below
  (the instances apply them to no other argument).
\<close>

definition asciiLower :: "char \<Rightarrow> char" where
  "asciiLower c =
     (case map_of (zip ''ABCDEFGHIJKLMNOPQRSTUVWXYZ'' ''abcdefghijklmnopqrstuvwxyz'') c of
        Some l \<Rightarrow> l | None \<Rightarrow> c)"

definition asciiUpper :: "char \<Rightarrow> char" where
  "asciiUpper c =
     (case map_of (zip ''abcdefghijklmnopqrstuvwxyz'' ''ABCDEFGHIJKLMNOPQRSTUVWXYZ'') c of
        Some u \<Rightarrow> u | None \<Rightarrow> c)"

definition exLib :: GoLib where
  "exLib =
     \<lparr>CamelToSnake = (\<lambda>s. if s = ''OrderItem'' then ''order_item''
                          else if s = ''IsNewTable'' then ''is_new_table''
                          else if s = ''Account'' then ''account''
                          else s),
      ForceLowerCamelIdentifier = (\<lambda>s. if s = ''created_at'' then ''createdAt'' else s),
      ToLower = map asciiLower, ToUpper = map asciiUpper\<rparr>"

text \<open>A sample type with a skipped column and a nullable field of an unregistered type.\<close>

definition exAccount :: MethodsOption where
  "exAccount =
     \<lparr>OptType = \<lparr>TypeName = ''Account'', TypeSchema = ''public'',
                  TypeFields = [exField ''ID'' ''int'' ''id'' True,
                                exField ''Nick'' ''sql.NullString'' ''nick'' False,
                                exField ''Mood'' ''Mood'' ''mood'' False,
                                exField ''CreatedAt'' ''time.Time'' ''created_at'' True],
                  TypeComment = [], HasDeletedField = False\<rparr>,
      Sub = ''account'', ListFields = False, ModelToPB = True,
      OptConfig = \<lparr>ImportService = ''user-service'', SkipFields = {''nick''}\<rparr>\<rparr>"

section \<open>Auxiliary lemmas\<close>

lemmas ex_defs = exLoader_def exArgs_def exField_def

lemma lookupBool_fold_names:
  "lookupBool (fold (\<lambda>n m. m(n \<mapsto> True)) ns m0) x \<longleftrightarrow> x \<in> set ns \<or> lookupBool m0 x"
  by (induction ns arbitrary: m0) (auto simp: lookupBool_def)

lemma lookupBool_ignoreNamesMap: "lookupBool (ignoreNamesMap ns) x \<longleftrightarrow> x \<in> set ns"
  by (simp add: ignoreNamesMap_def lookupBool_fold_names) (simp add: lookupBool_def)

lemma lookupBool_fold_fields:
  "lookupBool (fold (\<lambda>f m. m(Name f \<mapsto> True)) fs m0) x \<longleftrightarrow> x \<in> Name ` set fs \<or> lookupBool m0 x"
  by (induction fs arbitrary: m0) (auto simp: lookupBool_def)

lemma lookupBool_ignoreFieldsMap: "lookupBool (ignoreFieldsMap fs) x \<longleftrightarrow> x \<in> Name ` set fs"
  by (simp add: ignoreFieldsMap_def lookupBool_fold_fields) (simp add: lookupBool_def)

lemma Join_Cons: "Join (x # xs) sep = x @ concat (map (\<lambda>y. sep @ y) xs)"
  by (induction xs arbitrary: x) auto

lemma Join_concat: "Join xs sep = (case xs of [] \<Rightarrow> [] | x # ys \<Rightarrow> x @ concat (map (\<lambda>y. sep @ y) ys))"
  by (cases xs) (simp_all add: Join_Cons)

lemma sepLoop_pos:
  "0 < i \<Longrightarrow> sepLoop item sep ig fs str i =
     str @ concat (map (\<lambda>(k, f). sep @ item (i + int k) f)
                    (enumerate 0 [f \<leftarrow> fs. \<not> lookupBool ig (Name f)]))"
proof (induction fs arbitrary: str i)
  case Nil
  then show ?case by simp
next
  case (Cons f fs)
  show ?case
  proof (cases "lookupBool ig (Name f)")
    case True
    with Cons show ?thesis by simp
  next
    case False
    have "0 < i + 1" using Cons.prems by simp
    from Cons.IH[OF this] False Cons.prems show ?thesis
      by (simp add: enumerate_Suc_eq comp_def split_def add.assoc)
  qed
qed

lemma sepLoop_zero:
  "sepLoop item sep ig fs [] 0 =
     Join (map (\<lambda>(k, f). item (int k) f) (enumerate 0 [f \<leftarrow> fs. \<not> lookupBool ig (Name f)])) sep"
proof (induction fs)
  case Nil
  then show ?case by simp
next
  case (Cons f fs)
  show ?case
  proof (cases "lookupBool ig (Name f)")
    case True
    with Cons show ?thesis by simp
  next
    case False
    then show ?thesis
      by (simp add: sepLoop_pos Join_Cons enumerate_Suc_eq comp_def split_def)
  qed
qed


lemma colnames_loop_sepLoop:
  "colnames_loop a ig fs str i = sepLoop (\<lambda>k f. colname a (Col f)) '', '' ig fs str i"
  by (induction fs arbitrary: str i) simp_all

lemma colnamesgeo_loop_sepLoop:
  "colnamesgeo_loop a ig fs str i = sepLoop (\<lambda>k f. geoColname a f) '', '' ig fs str i"
  by (induction fs arbitrary: str i) (simp_all add: geoColname_def)

lemma colnamesmulti_loop_sepLoop:
  "colnamesmulti_loop a ig fs str i = sepLoop (\<lambda>k f. colname a (Col f)) '', '' ig fs str i"
  by (induction fs arbitrary: str i) simp_all

lemma colnamesgeomulti_loop_sepLoop:
  "colnamesgeomulti_loop a ig fs str i = sepLoop (\<lambda>k f. geoColname a f) '', '' ig fs str i"
  by (induction fs arbitrary: str i) (simp_all add: geoColname_def)

lemma colprefixnames_loop_sepLoop:
  "colprefixnames_loop a ig prefix fs str i =
     sepLoop (\<lambda>k f. prefix @ ''.'' @ colname a (Col f)) '', '' ig fs str i"
  by (induction fs arbitrary: str i) simp_all

lemma colvals_loop_sepLoop:
  "colvals_loop a ig fs str i = sepLoop (\<lambda>k f. placeholder a f k) '', '' ig fs str i"
  by (induction fs arbitrary: str i) (simp_all add: placeholder_def)

lemma colvalsmulti_loop_sepLoop:
  "colvalsmulti_loop a ig fs str i = sepLoop (\<lambda>k f. placeholder a f k) '', '' ig fs str i"
  by (induction fs arbitrary: str i) (simp_all add: placeholder_def)

lemma fieldnames_loop_sepLoop:
  "fieldnames_loop ig prefix fs str i = sepLoop (\<lambda>k f. prefix @ ''.'' @ Name f) '', '' ig fs str i"
  by (induction fs arbitrary: str i) simp_all

lemma fieldnamesmulti_loop_sepLoop:
  "fieldnamesmulti_loop ig prefix fs str i =
     sepLoop (\<lambda>k f. prefix @ ''.'' @ Name f) '', '' ig fs str i"
  by (induction fs arbitrary: str i) simp_all

lemma colnamesquery_loop_fst:
  "fst (colnamesquery_loop a ig sep fs str i sd) = sepLoop (\<lambda>k f. queryClause a f k) sep ig fs str i"
  by (induction fs arbitrary: str i sd) (simp_all add: queryClause_def placeholder_def)

lemma colnamesquery_loop_snd:
  "snd (colnamesquery_loop a ig sep fs str i sd) \<longleftrightarrow>
     sd \<or> ''is_deleted'' \<in> Name ` set [f \<leftarrow> fs. \<not> lookupBool ig (Name f)]"
  by (induction fs arbitrary: str i sd) auto

lemma map_snd_enumerate_const: "map (\<lambda>(k, f). g f) (enumerate n xs) = map g xs"
  by (induction xs arbitrary: n) simp_all

lemma colnames_closed:
  "colnames a flds ign = Join (map (\<lambda>f. colname a (Col f)) [f \<leftarrow> flds. Name f \<notin> set ign]) '', ''"
  by (simp add: colnames_def colnames_loop_sepLoop sepLoop_zero lookupBool_ignoreNamesMap
      map_snd_enumerate_const)

lemma colnamesquery_closed:
  "colnamesquery a flds h sep ign =
     Join (map (\<lambda>(k, f). queryClause a f (int k)) (enumerate 0 [f \<leftarrow> flds. Name f \<notin> set ign])) sep
       @ softDelete h sep [f \<leftarrow> flds. Name f \<notin> set ign]"
proof -
  obtain str sd where r: "colnamesquery_loop a (ignoreNamesMap ign) sep flds [] 0 False = (str, sd)"
    by (cases "colnamesquery_loop a (ignoreNamesMap ign) sep flds [] 0 False")
  from r colnamesquery_loop_fst[of a "ignoreNamesMap ign" sep flds "[]" 0 False]
  have s: "str = Join (map (\<lambda>(k, f). queryClause a f (int k))
                        (enumerate 0 [f \<leftarrow> flds. Name f \<notin> set ign])) sep"
    by (simp add: sepLoop_zero lookupBool_ignoreNamesMap)
  from r colnamesquery_loop_snd[of a "ignoreNamesMap ign" sep flds "[]" 0 False]
  have d: "sd \<longleftrightarrow> ''is_deleted'' \<in> Name ` set [f \<leftarrow> flds. Name f \<notin> set ign]"
    by (simp add: lookupBool_ignoreNamesMap)
  show ?thesis
    unfolding colnamesquery_def r using s d by (simp add: softDelete_def)
qed


lemma colnamesquerymulti_loop_fst:
  "fst (colnamesquerymulti_loop a ig sep start fs str i sd) =
     str @ concat (map (\<lambda>(k, f). (if start <s i + word_of_nat k then sep else [])
                                   @ queryClause a f (sint (i + word_of_nat k)))
                    (enumerate 0 [f \<leftarrow> fs. \<not> lookupBool ig (Name f)]))"
proof (induction fs arbitrary: str i sd)
  case Nil
  then show ?case by simp
next
  case (Cons f fs)
  show ?case
  proof (cases "lookupBool ig (Name f)")
    case True
    with Cons show ?thesis by simp
  next
    case False
    then have "colnamesquerymulti_loop a ig sep start (f # fs) str i sd =
        colnamesquerymulti_loop a ig sep start fs
          ((if start <s i then str @ sep else str) @ queryClause a f (sint i)) (i + 1)
          (if Name f = ''is_deleted'' then True else sd)"
      by (simp add: queryClause_def placeholder_def)
    with False show ?thesis
      by (simp add: Cons.IH enumerate_Suc_eq comp_def split_def ac_simps)
  qed
qed

lemma colnamesquerymulti_loop_snd:
  "snd (colnamesquerymulti_loop a ig sep start fs str i sd) \<longleftrightarrow>
     sd \<or> ''is_deleted'' \<in> Name ` set [f \<leftarrow> fs. \<not> lookupBool ig (Name f)]"
  by (induction fs arbitrary: str i sd) auto

lemma sint_add_of_nat:
  fixes x :: "'w::len word"
  assumes "sint x + int k < 2 ^ (LENGTH('w) - 1)"
  shows "sint (x + word_of_nat k) = sint x + int k"
proof -
  have "x + word_of_nat k = word_of_int (sint x + int k)"
    by simp
  then have "sint (x + word_of_nat k) = signed_take_bit (LENGTH('w) - 1) (sint x + int k)"
    by (simp only: sint_sbintrunc')
  moreover have "- (2 ^ (LENGTH('w) - 1)) \<le> sint x + int k"
    using sint_ge[of x] by linarith
  ultimately show ?thesis
    using assms by (simp add: signed_take_bit_int_eq_self)
qed

lemma concat_sep_Join:
  "concat (map (\<lambda>(k, f). (if 0 < k then sep else []) @ g k f) (enumerate 0 xs)) =
     Join (map (\<lambda>(k, f). g k f) (enumerate 0 xs)) sep"
  by (cases xs) (simp_all add: Join_Cons enumerate_Suc_eq comp_def split_def)

lemma colnamesquerymulti_general:
  "colnamesquerymulti a flds h sep (start :: 'w::len word) ign =
     concat (map (\<lambda>(k, f). (if start <s start + word_of_nat k then sep else [])
                             @ queryClause a f (sint (start + word_of_nat k)))
              (enumerate 0 [f \<leftarrow> flds. Name f \<notin> Name ` set ign]))
       @ softDelete h sep [f \<leftarrow> flds. Name f \<notin> Name ` set ign]"
proof -
  obtain str sd where
    r: "colnamesquerymulti_loop a (ignoreFieldsMap ign) sep start flds [] start False = (str, sd)"
    by (cases "colnamesquerymulti_loop a (ignoreFieldsMap ign) sep start flds [] start False")
  from r colnamesquerymulti_loop_fst[of a "ignoreFieldsMap ign" sep start flds "[]" start False]
  have s: "str = concat (map (\<lambda>(k, f). (if start <s start + word_of_nat k then sep else [])
                             @ queryClause a f (sint (start + word_of_nat k)))
              (enumerate 0 [f \<leftarrow> flds. Name f \<notin> Name ` set ign]))"
    by (simp add: lookupBool_ignoreFieldsMap)
  from r colnamesquerymulti_loop_snd[of a "ignoreFieldsMap ign" sep start flds "[]" start False]
  have d: "sd \<longleftrightarrow> ''is_deleted'' \<in> Name ` set [f \<leftarrow> flds. Name f \<notin> Name ` set ign]"
    by (simp add: lookupBool_ignoreFieldsMap)
  show ?thesis
    unfolding colnamesquerymulti_def r using s d by (simp add: softDelete_def)
qed

lemma colnamesquerymulti_closed:
  fixes start :: "'w::len word"
  assumes "sint start + int (length [f \<leftarrow> flds. Name f \<notin> Name ` set ign]) \<le> 2 ^ (LENGTH('w) - 1)"
  shows "colnamesquerymulti a flds h sep start ign =
     Join (map (\<lambda>(k, f). queryClause a f (sint start + int k))
             (enumerate 0 [f \<leftarrow> flds. Name f \<notin> Name ` set ign])) sep
       @ softDelete h sep [f \<leftarrow> flds. Name f \<notin> Name ` set ign]"
proof -
  let ?kept = "[f \<leftarrow> flds. Name f \<notin> Name ` set ign]"
  have "map (\<lambda>(k, f). (if start <s start + word_of_nat k then sep else [])
                             @ queryClause a f (sint (start + word_of_nat k)))
              (enumerate 0 ?kept) =
        map (\<lambda>(k, f). (if 0 < k then sep else []) @ queryClause a f (sint start + int k))
              (enumerate 0 ?kept)"
  proof (rule map_cong[OF refl])
    fix x assume "x \<in> set (enumerate 0 ?kept)"
    then have "fst x < length ?kept"
      by (auto simp: in_set_enumerate_eq)
    with assms have "sint start + int (fst x) < 2 ^ (LENGTH('w) - 1)"
      by linarith
    then have "sint (start + word_of_nat (fst x)) = sint start + int (fst x)"
      by (rule sint_add_of_nat)
    then show "(case x of (k, f) \<Rightarrow> (if start <s start + word_of_nat k then sep else [])
                             @ queryClause a f (sint (start + word_of_nat k))) =
               (case x of (k, f) \<Rightarrow> (if 0 < k then sep else []) @ queryClause a f (sint start + int k))"
      by (simp add: split_def word_sless_alt)
  qed
  then show ?thesis
    by (simp only: colnamesquerymulti_general concat_sep_Join)
qed


lemma digits_numeral [simp]:
  "digits (numeral n) =
     (if (numeral n :: nat) < 10 then [digit (numeral n)]
      else digits (numeral n div 10) @ [digit (numeral n mod 10)])"
  by (rule digits.simps)

lemma digits_0 [simp]: "digits 0 = ''0''"
  by (simp add: digits.simps digit_def)

lemma digits_1 [simp]: "digits 1 = ''1''"
  by (simp add: digits.simps digit_def)

lemma digits_Suc0 [simp]: "digits (Suc 0) = ''1''"
  by (simp add: digits.simps digit_def)

section \<open>Placeholder numbering\<close>

text \<open>
  Claim C1. The builders that emit placeholders (\<open>colvals\<close>, \<open>colvalsmulti\<close>,
  \<open>colnamesquery\<close>, \<open>colnamesquerymulti\<close>) give the \<open>k\<close>-th emitted (non-ignored) field
  the position \<open>k\<close>, counted from 0, or \<open>startCount + k\<close> in \<open>colnamesquerymulti\<close>; a
  geometry-typed field emits the fixed spatial call and still takes its position. For
  \<open>colnamesquerymulti\<close> this holds as long as \<open>startCount\<close> plus the number of emitted
  fields does not exceed the largest \<open>int\<close> by more than one, that is, as long as no position
  handed to \<open>NthParam\<close> wraps around.
\<close>

theorem placeholder_positions:
  fixes startCount :: "'w::len word"
  shows
  "colvals a flds ignoreNames =
     Join (map (\<lambda>(k, f). placeholder a f (int k))
             (enumerate 0 [f \<leftarrow> flds. Name f \<notin> set ignoreNames])) '', ''
   \<and> colvalsmulti a flds ignoreFields =
     Join (map (\<lambda>(k, f). placeholder a f (int k))
             (enumerate 0 [f \<leftarrow> flds. Name f \<notin> Name ` set ignoreFields])) '', ''
   \<and> colnamesquery a flds hasDeletedField sep ignoreNames =
     Join (map (\<lambda>(k, f). queryClause a f (int k))
             (enumerate 0 [f \<leftarrow> flds. Name f \<notin> set ignoreNames])) sep
       @ softDelete hasDeletedField sep [f \<leftarrow> flds. Name f \<notin> set ignoreNames]
   \<and> (sint startCount + int (length [f \<leftarrow> flds. Name f \<notin> Name ` set ignoreFields])
         \<le> 2 ^ (LENGTH('w) - 1) \<longrightarrow>
      colnamesquerymulti a flds hasDeletedField sep startCount ignoreFields =
        Join (map (\<lambda>(k, f). queryClause a f (sint startCount + int k))
                (enumerate 0 [f \<leftarrow> flds. Name f \<notin> Name ` set ignoreFields])) sep
          @ softDelete hasDeletedField sep [f \<leftarrow> flds. Name f \<notin> Name ` set ignoreFields])"
proof (intro conjI impI)
  show "colvals a flds ignoreNames =
     Join (map (\<lambda>(k, f). placeholder a f (int k))
             (enumerate 0 [f \<leftarrow> flds. Name f \<notin> set ignoreNames])) '', ''"
    by (simp add: colvals_def colvals_loop_sepLoop sepLoop_zero lookupBool_ignoreNamesMap)
  show "colvalsmulti a flds ignoreFields =
     Join (map (\<lambda>(k, f). placeholder a f (int k))
             (enumerate 0 [f \<leftarrow> flds. Name f \<notin> Name ` set ignoreFields])) '', ''"
    by (simp add: colvalsmulti_def colvalsmulti_loop_sepLoop sepLoop_zero
        lookupBool_ignoreFieldsMap)
  show "colnamesquery a flds hasDeletedField sep ignoreNames =
     Join (map (\<lambda>(k, f). queryClause a f (int k))
             (enumerate 0 [f \<leftarrow> flds. Name f \<notin> set ignoreNames])) sep
       @ softDelete hasDeletedField sep [f \<leftarrow> flds. Name f \<notin> set ignoreNames]"
    by (rule colnamesquery_closed)
next
  assume "sint startCount + int (length [f \<leftarrow> flds. Name f \<notin> Name ` set ignoreFields])
         \<le> 2 ^ (LENGTH('w) - 1)"
  then show "colnamesquerymulti a flds hasDeletedField sep startCount ignoreFields =
        Join (map (\<lambda>(k, f). queryClause a f (sint startCount + int k))
                (enumerate 0 [f \<leftarrow> flds. Name f \<notin> Name ` set ignoreFields])) sep
          @ softDelete hasDeletedField sep [f \<leftarrow> flds. Name f \<notin> Name ` set ignoreFields]"
    by (rule colnamesquerymulti_closed)
qed

theorem placeholder_positions_witness:
  "sint (2 :: 64 word)
      + int (length [f \<leftarrow> [exField ''ID'' ''int'' ''id'' True, exField ''Loc'' ''Point'' ''loc'' True,
                             exField ''Name'' ''string'' ''name'' True].
                     Name f \<notin> Name ` set [exField ''ID'' ''int'' ''id'' True]])
      \<le> 2 ^ (LENGTH(64) - 1)
   \<and> colnamesquerymulti exArgs
        [exField ''ID'' ''int'' ''id'' True, exField ''Loc'' ''Point'' ''loc'' True,
         exField ''Name'' ''string'' ''name'' True]
        False '', '' (2 :: 64 word) [exField ''ID'' ''int'' ''id'' True]
      = ''loc = ST_GeomFromWKB(?), name = $3''"
  using placeholder_positions[where a = exArgs and startCount = "2 :: 64 word"
      and flds = "[exField ''ID'' ''int'' ''id'' True, exField ''Loc'' ''Point'' ''loc'' True,
         exField ''Name'' ''string'' ''name'' True]"
      and ignoreFields = "[exField ''ID'' ''int'' ''id'' True]"
      and hasDeletedField = False and sep = "'', ''"]
  by (simp add: ex_defs queryClause_def placeholder_def colname_def softDelete_def Itoa_def
      digit_def)


text \<open>
  Without the bound the numbering wraps: from the largest 64-bit \<open>int\<close> the second
  position is the smallest \<open>int\<close>, and \<open>i > startCount\<close> never holds, so the separator
  is missing as well.
\<close>

theorem placeholder_positions_counterexample:
  "colnamesquerymulti exArgs [exField ''A'' ''int'' ''a'' True, exField ''B'' ''int'' ''b'' True]
      False '' AND '' (0x7FFFFFFFFFFFFFFF :: 64 word) []
     = ''a = $9223372036854775807b = $-9223372036854775808''
   \<and> colnamesquerymulti exArgs [exField ''A'' ''int'' ''a'' True, exField ''B'' ''int'' ''b'' True]
      False '' AND '' (0x7FFFFFFFFFFFFFFF :: 64 word) []
     \<noteq> ''a = $9223372036854775807 AND b = $9223372036854775808''"
  by (simp add: colnamesquerymulti_def ignoreFieldsMap_def lookupBool_def ex_defs colname_def
      Itoa_def digit_def word_sless_alt)

section \<open>Ignored fields and order\<close>

text \<open>
  Claim C2. For every field list and every ignore set, given as names or as field objects,
  each clause builder (\<open>colnames\<close>, \<open>colnamesgeo\<close>, \<open>colnamesmulti\<close>,
  \<open>colnamesgeomulti\<close>, \<open>colnamesquery\<close>, \<open>colnamesquerymulti\<close>, \<open>colprefixnames\<close>,
  \<open>colvals\<close>, \<open>colvalsmulti\<close>, \<open>fieldnames\<close>, \<open>fieldnamesmulti\<close>) emits one item for
  each field whose \<open>Name\<close> is not in the ignore set and for no other field, in the order
  of the input list: its output is the items of the filtered list, joined by the separator
  (followed, in the two query builders, by the soft-delete predicate). For
  \<open>colnamesquerymulti\<close> the separator test \<open>i > startCount\<close> is kept as the code has it.
\<close>

theorem builders_emit_kept_fields:
  fixes startCount :: "'w::len word"
  shows
  "colnames a flds ignoreNames =
     Join (map (\<lambda>f. colname a (Col f)) [f \<leftarrow> flds. Name f \<notin> set ignoreNames]) '', ''
   \<and> colnamesgeo a flds ignoreNames =
     Join (map (geoColname a) [f \<leftarrow> flds. Name f \<notin> set ignoreNames]) '', ''
   \<and> colnamesmulti a flds ignoreFields =
     Join (map (\<lambda>f. colname a (Col f)) [f \<leftarrow> flds. Name f \<notin> Name ` set ignoreFields]) '', ''
   \<and> colnamesgeomulti a flds ignoreFields =
     Join (map (geoColname a) [f \<leftarrow> flds. Name f \<notin> Name ` set ignoreFields]) '', ''
   \<and> colnamesquery a flds hasDeletedField sep ignoreNames =
     Join (map (\<lambda>(k, f). queryClause a f (int k))
             (enumerate 0 [f \<leftarrow> flds. Name f \<notin> set ignoreNames])) sep
       @ softDelete hasDeletedField sep [f \<leftarrow> flds. Name f \<notin> set ignoreNames]
   \<and> colnamesquerymulti a flds hasDeletedField sep startCount ignoreFields =
     concat (map (\<lambda>(k, f). (if startCount <s startCount + word_of_nat k then sep else [])
                             @ queryClause a f (sint (startCount + word_of_nat k)))
              (enumerate 0 [f \<leftarrow> flds. Name f \<notin> Name ` set ignoreFields]))
       @ softDelete hasDeletedField sep [f \<leftarrow> flds. Name f \<notin> Name ` set ignoreFields]
   \<and> colprefixnames a flds prefix ignoreNames =
     Join (map (\<lambda>f. prefix @ ''.'' @ colname a (Col f)) [f \<leftarrow> flds. Name f \<notin> set ignoreNames]) '', ''
   \<and> colvals a flds ignoreNames =
     Join (map (\<lambda>(k, f). placeholder a f (int k))
             (enumerate 0 [f \<leftarrow> flds. Name f \<notin> set ignoreNames])) '', ''
   \<and> colvalsmulti a flds ignoreFields =
     Join (map (\<lambda>(k, f). placeholder a f (int k))
             (enumerate 0 [f \<leftarrow> flds. Name f \<notin> Name ` set ignoreFields])) '', ''
   \<and> fieldnames a flds prefix ignoreNames =
     Join (map (\<lambda>f. prefix @ ''.'' @ Name f) [f \<leftarrow> flds. Name f \<notin> set ignoreNames]) '', ''
   \<and> fieldnamesmulti a flds prefix ignoreFields =
     Join (map (\<lambda>f. prefix @ ''.'' @ Name f) [f \<leftarrow> flds. Name f \<notin> Name ` set ignoreFields]) '', ''"
proof (intro conjI)
  show "colnames a flds ignoreNames =
     Join (map (\<lambda>f. colname a (Col f)) [f \<leftarrow> flds. Name f \<notin> set ignoreNames]) '', ''"
    by (rule colnames_closed)
  show "colnamesgeo a flds ignoreNames =
     Join (map (geoColname a) [f \<leftarrow> flds. Name f \<notin> set ignoreNames]) '', ''"
    by (simp add: colnamesgeo_def colnamesgeo_loop_sepLoop sepLoop_zero lookupBool_ignoreNamesMap
        map_snd_enumerate_const)
  show "colnamesmulti a flds ignoreFields =
     Join (map (\<lambda>f. colname a (Col f)) [f \<leftarrow> flds. Name f \<notin> Name ` set ignoreFields]) '', ''"
    by (simp add: colnamesmulti_def colnamesmulti_loop_sepLoop sepLoop_zero
        lookupBool_ignoreFieldsMap map_snd_enumerate_const)
  show "colnamesgeomulti a flds ignoreFields =
     Join (map (geoColname a) [f \<leftarrow> flds. Name f \<notin> Name ` set ignoreFields]) '', ''"
    by (simp add: colnamesgeomulti_def colnamesgeomulti_loop_sepLoop sepLoop_zero
        lookupBool_ignoreFieldsMap map_snd_enumerate_const)
  show "colnamesquery a flds hasDeletedField sep ignoreNames =
     Join (map (\<lambda>(k, f). queryClause a f (int k))
             (enumerate 0 [f \<leftarrow> flds. Name f \<notin> set ignoreNames])) sep
       @ softDelete hasDeletedField sep [f \<leftarrow> flds. Name f \<notin> set ignoreNames]"
    by (rule colnamesquery_closed)
  show "colnamesquerymulti a flds hasDeletedField sep startCount ignoreFields =
     concat (map (\<lambda>(k, f). (if startCount <s startCount + word_of_nat k then sep else [])
                             @ queryClause a f (sint (startCount + word_of_nat k)))
              (enumerate 0 [f \<leftarrow> flds. Name f \<notin> Name ` set ignoreFields]))
       @ softDelete hasDeletedField sep [f \<leftarrow> flds. Name f \<notin> Name ` set ignoreFields]"
    by (rule colnamesquerymulti_general)
  show "colprefixnames a flds prefix ignoreNames =
     Join (map (\<lambda>f. prefix @ ''.'' @ colname a (Col f)) [f \<leftarrow> flds. Name f \<notin> set ignoreNames]) '', ''"
    by (simp add: colprefixnames_def colprefixnames_loop_sepLoop sepLoop_zero
        lookupBool_ignoreNamesMap map_snd_enumerate_const)
  show "colvals a flds ignoreNames =
     Join (map (\<lambda>(k, f). placeholder a f (int k))
             (enumerate 0 [f \<leftarrow> flds. Name f \<notin> set ignoreNames])) '', ''"
    by (simp add: colvals_def colvals_loop_sepLoop sepLoop_zero lookupBool_ignoreNamesMap)
  show "colvalsmulti a flds ignoreFields =
     Join (map (\<lambda>(k, f). placeholder a f (int k))
             (enumerate 0 [f \<leftarrow> flds. Name f \<notin> Name ` set ignoreFields])) '', ''"
    by (simp add: colvalsmulti_def colvalsmulti_loop_sepLoop sepLoop_zero
        lookupBool_ignoreFieldsMap)
  show "fieldnames a flds prefix ignoreNames =
     Join (map (\<lambda>f. prefix @ ''.'' @ Name f) [f \<leftarrow> flds. Name f \<notin> set ignoreNames]) '', ''"
    by (simp add: fieldnames_def fieldnames_loop_sepLoop sepLoop_zero
        lookupBool_ignoreNamesMap map_snd_enumerate_const)
  show "fieldnamesmulti a flds prefix ignoreFields =
     Join (map (\<lambda>f. prefix @ ''.'' @ Name f) [f \<leftarrow> flds. Name f \<notin> Name ` set ignoreFields]) '', ''"
    by (simp add: fieldnamesmulti_def fieldnamesmulti_loop_sepLoop sepLoop_zero
        lookupBool_ignoreFieldsMap map_snd_enumerate_const)
qed

section \<open>The soft-delete predicate\<close>

text \<open>
  Claim C6. For two fields, neither named \<open>is_deleted\<close>, an empty ignore set,
  \<open>hasDeletedField\<close> true and any separator, \<open>colnamesquery\<close> returns the two clauses
  \<open>column = placeholder\<close> (positions 0 and 1) followed by exactly one soft-delete predicate
  \<open>is_deleted = false\<close>, placed after the last field clause and separated from it by the
  separator.
\<close>

theorem colnamesquery_two_fields:
  "Name f1 \<noteq> ''is_deleted'' \<Longrightarrow> Name f2 \<noteq> ''is_deleted'' \<Longrightarrow>
   colnamesquery a [f1, f2] True sep [] =
     (colname a (Col f1) @ '' = '' @ placeholder a f1 0) @ sep
       @ (colname a (Col f2) @ '' = '' @ placeholder a f2 1) @ sep @ ''is_deleted = false''"
  by (simp add: colnamesquery_closed softDelete_def queryClause_def enumerate_Suc_eq)

theorem colnamesquery_two_fields_witness:
  "Name (exField ''ID'' ''int'' ''id'' True) \<noteq> ''is_deleted''
   \<and> Name (exField ''Loc'' ''Point'' ''loc'' True) \<noteq> ''is_deleted''
   \<and> colnamesquery exArgs [exField ''ID'' ''int'' ''id'' True, exField ''Loc'' ''Point'' ''loc'' True]
        True '' AND '' []
      = ''id = $0 AND loc = ST_GeomFromWKB(?) AND is_deleted = false''"
  using colnamesquery_two_fields[of "exField ''ID'' ''int'' ''id'' True"
      "exField ''Loc'' ''Point'' ''loc'' True" exArgs "'' AND ''"]
  by (simp add: ex_defs placeholder_def colname_def Itoa_def)

text \<open>
  Claim C10. When \<open>hasDeletedField\<close> is true and no field survives the ignore filter (the
  list is empty or every field's \<open>Name\<close> is ignored), \<open>colnamesquery\<close> and
  \<open>colnamesquerymulti\<close> return the separator immediately followed by
  \<open>is_deleted = false\<close>: the output begins with the separator.
\<close>

theorem soft_delete_without_fields:
  fixes startCount :: "'w::len word"
  shows
  "((\<forall>f \<in> set flds. Name f \<in> set ignoreNames) \<longrightarrow>
      colnamesquery a flds True sep ignoreNames = sep @ ''is_deleted = false'')
   \<and> ((\<forall>f \<in> set flds. Name f \<in> Name ` set ignoreFields) \<longrightarrow>
      colnamesquerymulti a flds True sep startCount ignoreFields = sep @ ''is_deleted = false'')"
proof (intro conjI impI)
  assume "\<forall>f \<in> set flds. Name f \<in> set ignoreNames"
  then have "[f \<leftarrow> flds. Name f \<notin> set ignoreNames] = []"
    by (simp add: filter_empty_conv)
  then show "colnamesquery a flds True sep ignoreNames = sep @ ''is_deleted = false''"
    by (simp add: colnamesquery_closed softDelete_def)
next
  assume "\<forall>f \<in> set flds. Name f \<in> Name ` set ignoreFields"
  then have "[f \<leftarrow> flds. Name f \<notin> Name ` set ignoreFields] = []"
    by (simp add: filter_empty_conv)
  then show "colnamesquerymulti a flds True sep startCount ignoreFields = sep @ ''is_deleted = false''"
    by (simp add: colnamesquerymulti_general softDelete_def)
qed

theorem soft_delete_without_fields_witness:
  "set (map Name [exField ''ID'' ''int'' ''id'' True]) \<subseteq> set [''ID'']
   \<and> colnamesquery exArgs [exField ''ID'' ''int'' ''id'' True] True '' AND '' [''ID'']
       = '' AND is_deleted = false''
   \<and> set (map Name [exField ''ID'' ''int'' ''id'' True])
         \<subseteq> Name ` set [exField ''ID'' ''int'' ''id'' True]
   \<and> colnamesquerymulti exArgs [exField ''ID'' ''int'' ''id'' True] True '' AND '' (5 :: 64 word)
         [exField ''ID'' ''int'' ''id'' True]
       = '' AND is_deleted = false''"
  using soft_delete_without_fields[where flds = "[exField ''ID'' ''int'' ''id'' True]"
      and ignoreNames = "[''ID'']" and a = exArgs and sep = "'' AND ''"
      and ignoreFields = "[exField ''ID'' ''int'' ''id'' True]" and startCount = "5 :: 64 word"]
  by (simp add: ex_defs)

section \<open>The count helper\<close>






section \<open>Short names\<close>

lemma shortname_words_eq:
  "shortname_words ss u = u @ map (take 1) [s \<leftarrow> ss. s \<noteq> [] \<and> s \<noteq> ''id'']"
  by (induction ss arbitrary: u) simp_all

lemma Join_empty_sep: "Join xs [] = concat xs"
  by (induction xs "[] :: string" rule: Join.induct) simp_all

lemma computed_initials:
  "Join (shortname_words (Split (ToLower L (CamelToSnake L typ)) CHR ''_'') []) [] = initials L typ"
  by (simp add: shortname_words_eq Join_empty_sep initials_def)

lemma dom_fold_field_names:
  "dom (fold (\<lambda>f m. m(Name f \<mapsto> True)) k m) = dom m \<union> Name ` set k"
  by (induction k arbitrary: m) auto

lemma dom_fold_param_names:
  "dom (fold (\<lambda>f m. m(ParamName f \<mapsto> True)) k m) = dom m \<union> ParamName ` set k"
  by (induction k arbitrary: m) auto

lemma addScopeConflicts_panic:
  "addScopeConflicts cs m = Inl NotImplemented \<longleftrightarrow> ScopeOther \<in> set cs"
proof (induction cs arbitrary: m)
  case Nil
  then show ?case by simp
next
  case (Cons c cs)
  then show ?case by (cases c) simp_all
qed

lemma addScopeConflicts_dom:
  "addScopeConflicts cs m = Inr m' \<Longrightarrow> dom m' = dom m \<union> (\<Union>c \<in> set cs. scopeNames c)"
proof (induction cs arbitrary: m)
  case Nil
  then show ?case by simp
next
  case (Cons c cs)
  then show ?case
    by (cases c) (auto simp: dom_fold_field_names dom_fold_param_names)
qed

lemma addScopeConflicts_total:
  "ScopeOther \<notin> set cs \<Longrightarrow> \<exists>m'. addScopeConflicts cs m = Inr m'"
proof (induction cs arbitrary: m)
  case Nil
  then show ?case by simp
next
  case (Cons c cs)
  then show ?case by (cases c) simp_all
qed

lemma dom_defaultConflicts:
  "dom defaultConflicts =
     {''sql'', ''driver'', ''csv'', ''errors'', ''fmt'', ''regexp'', ''strings'', ''time''}"
  by (auto simp: defaultConflicts_def split: if_splits)

lemma shortname_miss:
  assumes "ShortNameTypeMap a typ = None" "ScopeOther \<notin> set cs"
  shows "shortname L a typ cs =
     Inr (if safeName (initials L typ) \<in> conflictNames cs
          then safeName (initials L typ) @ NameConflictSuffix a else safeName (initials L typ),
          a\<lparr>ShortNameTypeMap := (ShortNameTypeMap a)(typ \<mapsto> safeName (initials L typ))\<rparr>)"
proof -
  obtain m' where m: "addScopeConflicts cs defaultConflicts = Inr m'"
    using addScopeConflicts_total[OF assms(2)] by blast
  have d: "dom m' = conflictNames cs"
    using addScopeConflicts_dom[OF m] by (simp add: dom_defaultConflicts conflictNames_def)
  have "(m' (safeName (initials L typ)) \<noteq> None) = (safeName (initials L typ) \<in> conflictNames cs)"
    using d by (auto simp: dom_def)
  then show ?thesis
    using assms(1) m by (simp add: shortname_def computed_initials safeName_def Let_def)
qed

lemma shortname_hit:
  assumes "ShortNameTypeMap a typ = Some v" "ScopeOther \<notin> set cs"
  shows "shortname L a typ cs =
     Inr (if v \<in> conflictNames cs then v @ NameConflictSuffix a else v, a)"
proof -
  obtain m' where m: "addScopeConflicts cs defaultConflicts = Inr m'"
    using addScopeConflicts_total[OF assms(2)] by blast
  have d: "dom m' = conflictNames cs"
    using addScopeConflicts_dom[OF m] by (simp add: dom_defaultConflicts conflictNames_def)
  have "(m' v \<noteq> None) = (v \<in> conflictNames cs)"
    using d by (auto simp: dom_def)
  then show ?thesis
    using assms(1) m by (simp add: shortname_def)
qed


lemma reserved_table_check:
  "list_all (\<lambda>(k, n). n \<noteq> k \<and> map_of goReservedTable n = None) goReservedTable"
  by code_simp

lemma reserved_alias:
  assumes "goReservedNames k = Some n"
  shows "n \<noteq> k \<and> goReservedNames n = None"
proof -
  from assms have "(k, n) \<in> set goReservedTable"
    by (auto simp: goReservedNames_def dest: map_of_SomeD)
  with reserved_table_check show ?thesis
    by (auto simp: list_all_iff goReservedNames_def)
qed

text \<open>
  Claim C9. A call of \<open>shortname\<close> whose conflict-scope arguments include a value that is
  not a \<open>string\<close>, a \<open>[]*Field\<close> or a \<open>[]*QueryParam\<close> panics and returns no
  identifier; when all scope arguments are of the three supported kinds, it returns an
  identifier.
\<close>

theorem shortname_unsupported_scope:
  "(ScopeOther \<in> set scopeConflicts \<longrightarrow>
      shortname L a typ scopeConflicts = Inl NotImplemented)
   \<and> (ScopeOther \<notin> set scopeConflicts \<longrightarrow>
      (\<exists>v a'. shortname L a typ scopeConflicts = Inr (v, a')))"
proof (intro conjI impI)
  assume "ScopeOther \<in> set scopeConflicts"
  then have "addScopeConflicts scopeConflicts defaultConflicts = Inl NotImplemented"
    by (simp add: addScopeConflicts_panic)
  then show "shortname L a typ scopeConflicts = Inl NotImplemented"
    by (simp add: shortname_def Let_def split: option.split)
next
  assume s: "ScopeOther \<notin> set scopeConflicts"
  show "\<exists>v a'. shortname L a typ scopeConflicts = Inr (v, a')"
  proof (cases "ShortNameTypeMap a typ")
    case None
    from shortname_miss[OF None s] show ?thesis by blast
  next
    case (Some v)
    from shortname_hit[OF Some s] show ?thesis by blast
  qed
qed

theorem shortname_unsupported_scope_witness:
  "ScopeOther \<in> set [ScopeString ''db'', ScopeOther]
   \<and> shortname exLib exArgs ''OrderItem'' [ScopeString ''db'', ScopeOther] = Inl NotImplemented
   \<and> ScopeOther \<notin> set [ScopeString ''db'']
   \<and> (\<exists>v a'. shortname exLib exArgs ''OrderItem'' [ScopeString ''db''] = Inr (v, a'))"
  using shortname_unsupported_scope[of "[ScopeString ''db'', ScopeOther]" exLib exArgs "''OrderItem''"]
    shortname_unsupported_scope[of "[ScopeString ''db'']" exLib exArgs "''OrderItem''"]
  by simp

text \<open>
  Claim C5. For a type that is not in the cache, \<open>shortname\<close> computes the concatenation of
  the first byte of each word of the lower-cased snake form of the type name, the words
  \<open>id\<close> dropped; a computed name that is a Go reserved name is replaced by its safe name
  from the table, which differs from it and is itself not reserved; then, if the name is among
  the default packages or the supplied scope names, \<open>NameConflictSuffix\<close> is appended; the
  name before the suffix is stored in the cache. So \<open>shortname("OrderItem")\<close> is \<open>oi\<close>, and
  with a field named \<open>oi\<close> in scope it is \<open>oi\<close> followed by the suffix.
\<close>

theorem shortname_computed:
  "(ShortNameTypeMap a typ = None \<and> ScopeOther \<notin> set scopeConflicts \<longrightarrow>
      shortname L a typ scopeConflicts =
        Inr (if safeName (initials L typ) \<in> conflictNames scopeConflicts
             then safeName (initials L typ) @ NameConflictSuffix a
             else safeName (initials L typ),
             a\<lparr>ShortNameTypeMap := (ShortNameTypeMap a)(typ \<mapsto> safeName (initials L typ))\<rparr>))
   \<and> (goReservedNames v = None \<longrightarrow> safeName v = v)
   \<and> (goReservedNames v = Some n \<longrightarrow> safeName v = n \<and> n \<noteq> v \<and> goReservedNames n = None)
   \<and> (CamelToSnake L ''OrderItem'' = ''order_item'' \<and> ToLower L ''order_item'' = ''order_item''
        \<and> ShortNameTypeMap a ''OrderItem'' = None \<longrightarrow>
        map_sum id fst (shortname L a ''OrderItem'' []) = Inr ''oi''
        \<and> (''oi'' \<in> Name ` set fs \<longrightarrow>
             map_sum id fst (shortname L a ''OrderItem'' [ScopeFields fs])
               = Inr (''oi'' @ NameConflictSuffix a)))"
proof (intro conjI impI)
  assume "ShortNameTypeMap a typ = None \<and> ScopeOther \<notin> set scopeConflicts"
  then show "shortname L a typ scopeConflicts =
        Inr (if safeName (initials L typ) \<in> conflictNames scopeConflicts
             then safeName (initials L typ) @ NameConflictSuffix a
             else safeName (initials L typ),
             a\<lparr>ShortNameTypeMap := (ShortNameTypeMap a)(typ \<mapsto> safeName (initials L typ))\<rparr>)"
    by (simp add: shortname_miss)
next
  assume "goReservedNames v = None"
  then show "safeName v = v" by (simp add: safeName_def)
next
  assume r: "goReservedNames v = Some n"
  then show "safeName v = n" by (simp add: safeName_def)
  from reserved_alias[OF r] show "n \<noteq> v" and "goReservedNames n = None" by simp_all
next
  assume h: "CamelToSnake L ''OrderItem'' = ''order_item'' \<and> ToLower L ''order_item'' = ''order_item''
        \<and> ShortNameTypeMap a ''OrderItem'' = None"
  then have i: "initials L ''OrderItem'' = ''oi''"
    by (simp add: initials_def)
  have n: "safeName ''oi'' = ''oi''"
    by (simp add: safeName_def goReservedNames_def goReservedTable_def)
  from h have m: "ShortNameTypeMap a ''OrderItem'' = None" by simp
  show "map_sum id fst (shortname L a ''OrderItem'' []) = Inr ''oi''"
    using shortname_miss[OF m, of "[]" L] by (simp add: i n conflictNames_def)
  assume "''oi'' \<in> Name ` set fs"
  then show "map_sum id fst (shortname L a ''OrderItem'' [ScopeFields fs])
               = Inr (''oi'' @ NameConflictSuffix a)"
    using shortname_miss[OF m, of "[ScopeFields fs]" L] by (simp add: i n conflictNames_def)
qed

theorem shortname_computed_witness:
  "ShortNameTypeMap exArgs ''OrderItem'' = None
   \<and> CamelToSnake exLib ''OrderItem'' = ''order_item'' \<and> ToLower exLib ''order_item'' = ''order_item''
   \<and> map_sum id fst (shortname exLib exArgs ''OrderItem'' []) = Inr ''oi''
   \<and> ''oi'' \<in> Name ` set [exField ''oi'' ''int'' ''oi'' True]
   \<and> map_sum id fst (shortname exLib exArgs ''OrderItem'' [ScopeFields [exField ''oi'' ''int'' ''oi'' True]])
        = Inr ''oiVal''
   \<and> goReservedNames ''map'' = Some ''mp'' \<and> safeName ''map'' = ''mp''"
  using shortname_computed[of exArgs "''OrderItem''" "[]" exLib "''map''" "''mp''"
      "[exField ''oi'' ''int'' ''oi'' True]"]
  by (simp add: ex_defs exLib_def asciiLower_def goReservedNames_def goReservedTable_def
      initials_def safeName_def conflictNames_def)

text \<open>
  The suffix is appended to the safe name, so the identifier returned can be the reserved
  name again: \<open>IsNewTable\<close> computes \<open>int\<close>, whose safe name is \<open>i\<close>; with \<open>i\<close> in
  scope and the suffix \<open>nt\<close> the result is \<open>int\<close>.
\<close>

theorem shortname_computed_counterexample:
  "initials exLib ''IsNewTable'' = ''int''
   \<and> goReservedNames ''int'' = Some ''i''
   \<and> map_sum id fst
        (shortname exLib (exArgs\<lparr>NameConflictSuffix := ''nt''\<rparr>) ''IsNewTable'' [ScopeString ''i''])
      = Inr ''int''"
proof -
  have i: "initials exLib ''IsNewTable'' = ''int''"
    by (simp add: initials_def exLib_def asciiLower_def)
  have r: "goReservedNames ''int'' = Some ''i''"
    by (simp add: goReservedNames_def goReservedTable_def)
  have m: "ShortNameTypeMap (exArgs\<lparr>NameConflictSuffix := ''nt''\<rparr>) ''IsNewTable'' = None"
    by (simp add: exArgs_def)
  have s: "ScopeOther \<notin> set [ScopeString ''i'']"
    by simp
  show ?thesis
    using shortname_miss[OF m s, of exLib] by (simp add: i r safeName_def conflictNames_def)
qed

section \<open>Message field numbers\<close>

lemma proto_def_number: "proto_def a f n = protoDecl a f @ '' = '' @ Itoa n @ '';''"
  by (simp add: proto_def_def protoDecl_def Let_def split: option.split)

lemma proto_fieldsDef_eq:
  "proto_fieldsDef a p fs acc n =
     acc @ map (\<lambda>(k, f). proto_def a f (n + int k))
             (enumerate 0 [f \<leftarrow> fs. ColumnName (Col f) \<notin> SkipFields (OptConfig p)])"
proof (induction fs arbitrary: acc n)
  case Nil
  then show ?case by simp
next
  case (Cons f fs)
  show ?case
    by (simp add: Cons.IH enumerate_Suc_eq comp_def split_def add.assoc)
qed

lemma proto_messages_eq: "proto_messages a ps body = body @ concat (map (proto_message a) ps)"
  by (induction ps arbitrary: body) simp_all

lemma proto_text:
  "fst (proto a pc) =
     (if pc = [] then []
      else proto_header a (ImportService (OptConfig (sort_key Sub pc ! 0)))
             (proto_imports a (sort_key Sub pc) [] {})
           @ concat (map (proto_message a) (sort_key Sub pc)))"
  by (simp add: proto_def Let_def proto_messages_eq)

lemma enumerate_shift:
  "map (\<lambda>(k, f). g k f) (enumerate n xs) = map (\<lambda>(k, f). g (n + k) f) (enumerate 0 xs)"
proof (induction xs arbitrary: n g)
  case Nil
  then show ?case by simp
next
  case (Cons x xs)
  have "map (\<lambda>(k, f). g k f) (enumerate (Suc n) xs) = map (\<lambda>(k, f). g (Suc n + k) f) (enumerate 0 xs)"
    by (rule Cons.IH)
  moreover have "map (\<lambda>(k, f). g (n + k) f) (enumerate (Suc 0) xs)
      = map (\<lambda>(k, f). g (n + (Suc 0 + k)) f) (enumerate 0 xs)"
    using Cons.IH[of "\<lambda>k f. g (n + k) f" "Suc 0"] by simp
  ultimately show ?case by simp
qed

lemma map_enumerate_append:
  "map (\<lambda>(k, f). g k f) (enumerate 0 (xs @ ys)) =
     map (\<lambda>(k, f). g k f) (enumerate 0 xs) @ map (\<lambda>(k, f). g (length xs + k) f) (enumerate 0 ys)"
  using enumerate_shift[of g "length xs" ys] by (simp add: enumerate_append_eq)

lemma kept_unskip_other:
  assumes "c \<notin> (\<lambda>f. ColumnName (Col f)) ` set xs"
  shows "[f \<leftarrow> xs. ColumnName (Col f) \<notin> SkipFields (OptConfig (unskip p c))]
           = [f \<leftarrow> xs. ColumnName (Col f) \<notin> SkipFields (OptConfig p)]"
  using assms by (intro filter_cong refl) (auto simp: unskip_def)

text \<open>
  Claim C3. \<open>proto\<close> numbers the fields of a message from 1, in declaration order, over the
  fields whose column is not in the skip set: a skipped field takes no number. The text of
  \<open>proto\<close> is the header followed by the messages of the options sorted by \<open>Sub\<close>, and
  the number is the only part of a definition line that depends on the position.
  Consequently, taking out of the skip set the column name of a field (the name under which
  the message declares it, and the column of no other field of the type) gives that field
  the next number and raises by one the number of every field declared after it, while the
  fields declared before it keep theirs.
\<close>

theorem proto_field_numbers:
  "proto_fieldsDef a p flds [] 1
     = map (\<lambda>(k, f). proto_def a f (int k + 1))
         (enumerate 0 [f \<leftarrow> flds. ColumnName (Col f) \<notin> SkipFields (OptConfig p)])
   \<and> proto_def a f n = protoDecl a f @ '' = '' @ Itoa n @ '';''
   \<and> proto_message a p
       = ''message '' @ TypeName (OptType p) @ '' {'' @ NL
           @ Join (proto_fieldsDef a p (TypeFields (OptType p)) [] 1) NL @ NL @ ''}'' @ NL
   \<and> fst (proto a pc)
       = (if pc = [] then []
          else proto_header a (ImportService (OptConfig (sort_key Sub pc ! 0)))
                 (proto_imports a (sort_key Sub pc) [] {})
               @ concat (map (proto_message a) (sort_key Sub pc)))
   \<and> (ColumnName (Col g) = c \<and> c \<in> SkipFields (OptConfig p)
        \<and> c \<notin> (\<lambda>f. ColumnName (Col f)) ` set xs \<and> c \<notin> (\<lambda>f. ColumnName (Col f)) ` set ys \<longrightarrow>
        proto_fieldsDef a p (xs @ g # ys) [] 1
          = map (\<lambda>(k, f). proto_def a f (int k + 1))
              (enumerate 0 [f \<leftarrow> xs. ColumnName (Col f) \<notin> SkipFields (OptConfig p)])
            @ map (\<lambda>(k, f). proto_def a f
                     (int (length [f \<leftarrow> xs. ColumnName (Col f) \<notin> SkipFields (OptConfig p)])
                        + int k + 1))
                (enumerate 0 [f \<leftarrow> ys. ColumnName (Col f) \<notin> SkipFields (OptConfig p)])
        \<and> proto_fieldsDef a (unskip p c) (xs @ g # ys) [] 1
          = map (\<lambda>(k, f). proto_def a f (int k + 1))
              (enumerate 0 [f \<leftarrow> xs. ColumnName (Col f) \<notin> SkipFields (OptConfig p)])
            @ [proto_def a g
                 (int (length [f \<leftarrow> xs. ColumnName (Col f) \<notin> SkipFields (OptConfig p)]) + 1)]
            @ map (\<lambda>(k, f). proto_def a f
                     (int (length [f \<leftarrow> xs. ColumnName (Col f) \<notin> SkipFields (OptConfig p)])
                        + int k + 2))
                (enumerate 0 [f \<leftarrow> ys. ColumnName (Col f) \<notin> SkipFields (OptConfig p)]))"
proof (intro conjI impI)
  show "proto_fieldsDef a p flds [] 1
     = map (\<lambda>(k, f). proto_def a f (int k + 1))
         (enumerate 0 [f \<leftarrow> flds. ColumnName (Col f) \<notin> SkipFields (OptConfig p)])"
    by (simp add: proto_fieldsDef_eq add.commute)
  show "proto_def a f n = protoDecl a f @ '' = '' @ Itoa n @ '';''"
    by (rule proto_def_number)
  show "proto_message a p
       = ''message '' @ TypeName (OptType p) @ '' {'' @ NL
           @ Join (proto_fieldsDef a p (TypeFields (OptType p)) [] 1) NL @ NL @ ''}'' @ NL"
    by (simp add: proto_message_def)
  show "fst (proto a pc)
       = (if pc = [] then []
          else proto_header a (ImportService (OptConfig (sort_key Sub pc ! 0)))
                 (proto_imports a (sort_key Sub pc) [] {})
               @ concat (map (proto_message a) (sort_key Sub pc)))"
    by (rule proto_text)
next
  assume h: "ColumnName (Col g) = c \<and> c \<in> SkipFields (OptConfig p)
        \<and> c \<notin> (\<lambda>f. ColumnName (Col f)) ` set xs \<and> c \<notin> (\<lambda>f. ColumnName (Col f)) ` set ys"
  let ?kx = "[f \<leftarrow> xs. ColumnName (Col f) \<notin> SkipFields (OptConfig p)]"
  let ?ky = "[f \<leftarrow> ys. ColumnName (Col f) \<notin> SkipFields (OptConfig p)]"
  from h have k1: "[f \<leftarrow> xs @ g # ys. ColumnName (Col f) \<notin> SkipFields (OptConfig p)] = ?kx @ ?ky"
    by simp
  have g': "ColumnName (Col g) \<notin> SkipFields (OptConfig (unskip p c))"
    using h by (simp add: unskip_def)
  from h have k2: "[f \<leftarrow> xs @ g # ys. ColumnName (Col f) \<notin> SkipFields (OptConfig (unskip p c))]
      = ?kx @ g # ?ky"
    using g' by (simp add: kept_unskip_other)
  show "proto_fieldsDef a p (xs @ g # ys) [] 1
          = map (\<lambda>(k, f). proto_def a f (int k + 1)) (enumerate 0 ?kx)
            @ map (\<lambda>(k, f). proto_def a f (int (length ?kx) + int k + 1)) (enumerate 0 ?ky)"
    unfolding proto_fieldsDef_eq k1
    using map_enumerate_append[of "\<lambda>k f. proto_def a f (1 + int k)" ?kx ?ky]
    by (simp add: add.commute add.left_commute)
  show "proto_fieldsDef a (unskip p c) (xs @ g # ys) [] 1
          = map (\<lambda>(k, f). proto_def a f (int k + 1)) (enumerate 0 ?kx)
            @ [proto_def a g (int (length ?kx) + 1)]
            @ map (\<lambda>(k, f). proto_def a f (int (length ?kx) + int k + 2)) (enumerate 0 ?ky)"
    unfolding proto_fieldsDef_eq k2
    using map_enumerate_append[of "\<lambda>k f. proto_def a f (1 + int k)" ?kx "g # ?ky"]
    by (simp add: enumerate_Suc_eq comp_def split_def add.commute add.left_commute)
qed

theorem proto_field_numbers_witness:
  "ColumnName (Col (exField ''Nick'' ''sql.NullString'' ''nick'' False)) = ''nick''
   \<and> ''nick'' \<in> SkipFields (OptConfig exAccount)
   \<and> ''nick'' \<notin> (\<lambda>f. ColumnName (Col f)) ` set [exField ''ID'' ''int'' ''id'' True]
   \<and> ''nick'' \<notin> (\<lambda>f. ColumnName (Col f)) `
         set [exField ''Mood'' ''Mood'' ''mood'' False, exField ''CreatedAt'' ''time.Time'' ''created_at'' True]
   \<and> proto_fieldsDef exArgs exAccount
         ([exField ''ID'' ''int'' ''id'' True] @ exField ''Nick'' ''sql.NullString'' ''nick'' False
            # [exField ''Mood'' ''Mood'' ''mood'' False,
               exField ''CreatedAt'' ''time.Time'' ''created_at'' True]) [] 1
       = [TAB @ ''int64 id = 1;'', TAB @ ''Mood mood = 2;'',
          TAB @ ''google.protobuf.Timestamp created_at = 3;'']
   \<and> proto_fieldsDef exArgs (unskip exAccount ''nick'')
         ([exField ''ID'' ''int'' ''id'' True] @ exField ''Nick'' ''sql.NullString'' ''nick'' False
            # [exField ''Mood'' ''Mood'' ''mood'' False,
               exField ''CreatedAt'' ''time.Time'' ''created_at'' True]) [] 1
       = [TAB @ ''int64 id = 1;'', TAB @ ''google.protobuf.StringValue nick = 2;'',
          TAB @ ''Mood mood = 3;'', TAB @ ''google.protobuf.Timestamp created_at = 4;'']"
proof -
  have h: "ColumnName (Col (exField ''Nick'' ''sql.NullString'' ''nick'' False)) = ''nick''
   \<and> ''nick'' \<in> SkipFields (OptConfig exAccount)
   \<and> ''nick'' \<notin> (\<lambda>f. ColumnName (Col f)) ` set [exField ''ID'' ''int'' ''id'' True]
   \<and> ''nick'' \<notin> (\<lambda>f. ColumnName (Col f)) `
         set [exField ''Mood'' ''Mood'' ''mood'' False, exField ''CreatedAt'' ''time.Time'' ''created_at'' True]"
    by (simp add: exAccount_def ex_defs)
  note r = proto_field_numbers[where a = exArgs and p = exAccount
      and g = "exField ''Nick'' ''sql.NullString'' ''nick'' False" and c = "''nick''"
      and xs = "[exField ''ID'' ''int'' ''id'' True]"
      and ys = "[exField ''Mood'' ''Mood'' ''mood'' False,
                 exField ''CreatedAt'' ''time.Time'' ''created_at'' True]",
      THEN conjunct2, THEN conjunct2, THEN conjunct2, THEN conjunct2, THEN mp, OF h]
  have k: "[f \<leftarrow> [exField ''ID'' ''int'' ''id'' True]. ColumnName (Col f) \<notin> SkipFields (OptConfig exAccount)]
        = [exField ''ID'' ''int'' ''id'' True]"
     "[f \<leftarrow> [exField ''Mood'' ''Mood'' ''mood'' False, exField ''CreatedAt'' ''time.Time'' ''created_at'' True].
          ColumnName (Col f) \<notin> SkipFields (OptConfig exAccount)]
        = [exField ''Mood'' ''Mood'' ''mood'' False, exField ''CreatedAt'' ''time.Time'' ''created_at'' True]"
    by (simp_all add: exAccount_def ex_defs)
  have d: "proto_def exArgs (exField ''ID'' ''int'' ''id'' True) 1 = TAB @ ''int64 id = 1;''"
    "proto_def exArgs (exField ''Nick'' ''sql.NullString'' ''nick'' False) 2
       = TAB @ ''google.protobuf.StringValue nick = 2;''"
    "proto_def exArgs (exField ''Mood'' ''Mood'' ''mood'' False) 2 = TAB @ ''Mood mood = 2;''"
    "proto_def exArgs (exField ''Mood'' ''Mood'' ''mood'' False) 3 = TAB @ ''Mood mood = 3;''"
    "proto_def exArgs (exField ''CreatedAt'' ''time.Time'' ''created_at'' True) 3
       = TAB @ ''google.protobuf.Timestamp created_at = 3;''"
    "proto_def exArgs (exField ''CreatedAt'' ''time.Time'' ''created_at'' True) 4
       = TAB @ ''google.protobuf.Timestamp created_at = 4;''"
    by (simp_all add: proto_def_def ex_defs Itoa_def Let_def digit_def)
  from r have "proto_fieldsDef exArgs exAccount
         ([exField ''ID'' ''int'' ''id'' True] @ exField ''Nick'' ''sql.NullString'' ''nick'' False
            # [exField ''Mood'' ''Mood'' ''mood'' False,
               exField ''CreatedAt'' ''time.Time'' ''created_at'' True]) [] 1
       = [TAB @ ''int64 id = 1;'', TAB @ ''Mood mood = 2;'',
          TAB @ ''google.protobuf.Timestamp created_at = 3;'']
   \<and> proto_fieldsDef exArgs (unskip exAccount ''nick'')
         ([exField ''ID'' ''int'' ''id'' True] @ exField ''Nick'' ''sql.NullString'' ''nick'' False
            # [exField ''Mood'' ''Mood'' ''mood'' False,
               exField ''CreatedAt'' ''time.Time'' ''created_at'' True]) [] 1
       = [TAB @ ''int64 id = 1;'', TAB @ ''google.protobuf.StringValue nick = 2;'',
          TAB @ ''Mood mood = 3;'', TAB @ ''google.protobuf.Timestamp created_at = 4;'']"
    unfolding k by (simp add: enumerate_Suc_eq d)
  with h show ?thesis by (simp only: simp_thms)
qed

text \<open>
  The shift is by one only for a name that is the column of exactly one field. When two
  fields \<open>A\<close> and \<open>B\<close> share the column \<open>x\<close>, taking \<open>x\<close> out of the skip set moves the
  later field \<open>C\<close> from 1 to 3. The skip set is read by column name: a skip entry \<open>Nick\<close>,
  the Go name of the field over the column \<open>nick\<close>, skips nothing, and taking it out changes
  no number.
\<close>

theorem proto_field_numbers_counterexample:
  "proto_fieldsDef exArgs
      (exAccount\<lparr>OptConfig := \<lparr>ImportService = ''user-service'', SkipFields = {''x''}\<rparr>\<rparr>)
      [exField ''A'' ''int'' ''x'' True, exField ''B'' ''int'' ''x'' True,
       exField ''C'' ''int'' ''c'' True] [] 1
     = [TAB @ ''int64 c = 1;'']
   \<and> proto_fieldsDef exArgs
      (unskip (exAccount\<lparr>OptConfig := \<lparr>ImportService = ''user-service'', SkipFields = {''x''}\<rparr>\<rparr>) ''x'')
      [exField ''A'' ''int'' ''x'' True, exField ''B'' ''int'' ''x'' True,
       exField ''C'' ''int'' ''c'' True] [] 1
     = [TAB @ ''int64 x = 1;'', TAB @ ''int64 x = 2;'', TAB @ ''int64 c = 3;'']
   \<and> proto_fieldsDef exArgs
      (exAccount\<lparr>OptConfig := \<lparr>ImportService = ''user-service'', SkipFields = {''Nick''}\<rparr>\<rparr>)
      [exField ''Nick'' ''sql.NullString'' ''nick'' False, exField ''C'' ''int'' ''c'' True] [] 1
     = [TAB @ ''google.protobuf.StringValue nick = 1;'', TAB @ ''int64 c = 2;'']
   \<and> proto_fieldsDef exArgs
      (unskip (exAccount\<lparr>OptConfig := \<lparr>ImportService = ''user-service'', SkipFields = {''Nick''}\<rparr>\<rparr>)
         ''Nick'')
      [exField ''Nick'' ''sql.NullString'' ''nick'' False, exField ''C'' ''int'' ''c'' True] [] 1
     = [TAB @ ''google.protobuf.StringValue nick = 1;'', TAB @ ''int64 c = 2;'']"
  by (simp add: unskip_def proto_def_def ex_defs Itoa_def Let_def digit_def)

section \<open>Nullable fields of unregistered types\<close>

lemma withFields_simps [simp]:
  "OptConfig (withFields option fs) = OptConfig option"
  "TypeName (OptType (withFields option fs)) = TypeName (OptType option)"
  "TypeFields (OptType (withFields option fs)) = fs"
  "ModelToPB (withFields option fs) = ModelToPB option"
  by (simp_all add: withFields_def)

lemma nullWarning_withFields [simp]: "nullWarning (withFields option fs) = nullWarning option"
  by (rule ext) (simp add: nullWarning_def)

lemma unmappedNullable_withFields [simp]:
  "unmappedNullable a (withFields option fs) = unmappedNullable a option"
  by (rule ext) (simp add: unmappedNullable_def)

lemma modelToPB_loop1_option:
  "SkipFields (OptConfig o1) = SkipFields (OptConfig o2) \<Longrightarrow>
   modelToPB_loop1 L a o1 sn fs b fa = modelToPB_loop1 L a o2 sn fs b fa"
  by (induction fs arbitrary: b fa) (simp_all add: Let_def)

lemma modelToPB_loop2_option:
  "SkipFields (OptConfig o1) = SkipFields (OptConfig o2) \<Longrightarrow>
   TypeName (OptType o1) = TypeName (OptType o2) \<Longrightarrow>
   modelToPB_loop2 L a o1 sn fs b lg = modelToPB_loop2 L a o2 sn fs b lg"
  by (induction fs arbitrary: b lg) (simp_all add: Let_def nullWarning_def split: option.split)

lemma PBToModel_loop1_option:
  "SkipFields (OptConfig o1) = SkipFields (OptConfig o2) \<Longrightarrow>
   TypeName (OptType o1) = TypeName (OptType o2) \<Longrightarrow>
   PBToModel_loop1 L a o1 fs b fa = PBToModel_loop1 L a o2 fs b fa"
  by (induction fs arbitrary: b fa) (simp_all add: Let_def split: option.split)

lemma PBToModel_loop2_option:
  "SkipFields (OptConfig o1) = SkipFields (OptConfig o2) \<Longrightarrow>
   TypeName (OptType o1) = TypeName (OptType o2) \<Longrightarrow>
   PBToModel_loop2 L a o1 sn fs b lg = PBToModel_loop2 L a o2 sn fs b lg"
  by (induction fs arbitrary: b lg) (simp_all add: Let_def nullWarning_def split: option.split)

lemma modelToPB_loop1_drop:
  "\<not> NotNull (Col f) \<Longrightarrow> Type f \<noteq> ''[]byte'' \<Longrightarrow>
   modelToPB_loop1 L a p sn (xs @ f # ys) b fa = modelToPB_loop1 L a p sn (xs @ ys) b fa"
  by (induction xs arbitrary: b fa) (simp_all add: Let_def)

lemma PBToModel_loop1_drop:
  "\<not> NotNull (Col f) \<Longrightarrow> Type f \<noteq> ''[]byte'' \<Longrightarrow>
   PBToModel_loop1 L a p (xs @ f # ys) b fa = PBToModel_loop1 L a p (xs @ ys) b fa"
  by (induction xs arbitrary: b fa) (simp_all add: Let_def)

lemma modelToPB_loop2_fst:
  "fst (modelToPB_loop2 L a p sn fs b lg) = fst (modelToPB_loop2 L a p sn fs b lg')"
  by (induction fs arbitrary: b lg lg') (simp_all add: Let_def split: option.split)

lemma PBToModel_loop2_fst:
  "fst (PBToModel_loop2 L a p sn fs b lg) = fst (PBToModel_loop2 L a p sn fs b lg')"
  by (induction fs arbitrary: b lg lg') (simp_all add: Let_def split: option.split)

lemma modelToPB_loop2_snd:
  "snd (modelToPB_loop2 L a p sn fs b lg)
     = lg @ map (nullWarning p) (filter (unmappedNullable a p) fs)"
  by (induction fs arbitrary: b lg)
    (auto simp: Let_def unmappedNullable_def split: option.split)

lemma PBToModel_loop2_snd:
  "snd (PBToModel_loop2 L a p sn fs b lg)
     = lg @ map (nullWarning p) (filter (unmappedNullable a p) fs)"
  by (induction fs arbitrary: b lg)
    (auto simp: Let_def unmappedNullable_def split: option.split)

lemma modelToPB_loop2_drop:
  "unmappedNullable a p f \<Longrightarrow>
   fst (modelToPB_loop2 L a p sn (xs @ f # ys) b lg) = fst (modelToPB_loop2 L a p sn (xs @ ys) b lg)"
proof (induction xs arbitrary: b lg)
  case Nil
  then show ?case
    using modelToPB_loop2_fst[of L a p sn ys b "lg @ [nullWarning p f]" lg]
    by (simp add: unmappedNullable_def Let_def)
next
  case (Cons x xs)
  then show ?case by (simp add: Let_def split: option.split)
qed

lemma PBToModel_loop2_drop:
  "unmappedNullable a p f \<Longrightarrow>
   fst (PBToModel_loop2 L a p sn (xs @ f # ys) b lg) = fst (PBToModel_loop2 L a p sn (xs @ ys) b lg)"
proof (induction xs arbitrary: b lg)
  case Nil
  then show ?case
    using PBToModel_loop2_fst[of L a p sn ys b "lg @ [nullWarning p f]" lg]
    by (simp add: unmappedNullable_def Let_def)
next
  case (Cons x xs)
  then show ?case by (simp add: Let_def split: option.split)
qed

lemma shortname_no_scope:
  "\<exists>v m. shortname L a typ' [] = Inr (v, a\<lparr>ShortNameTypeMap := m\<rparr>)
         \<and> shortname L (a\<lparr>ShortNameTypeMap := m\<rparr>) typ' [] = Inr (v, a\<lparr>ShortNameTypeMap := m\<rparr>)"
proof (cases "ShortNameTypeMap a typ'")
  case None
  let ?v = "safeName (initials L typ')"
  let ?m = "(ShortNameTypeMap a)(typ' \<mapsto> ?v)"
  have 1: "shortname L a typ' [] =
      Inr (if ?v \<in> conflictNames [] then ?v @ NameConflictSuffix a else ?v, a\<lparr>ShortNameTypeMap := ?m\<rparr>)"
    using shortname_miss[OF None, of "[]" L] by simp
  have "ShortNameTypeMap (a\<lparr>ShortNameTypeMap := ?m\<rparr>) typ' = Some ?v"
    by simp
  from shortname_hit[OF this, of "[]" L]
  have 2: "shortname L (a\<lparr>ShortNameTypeMap := ?m\<rparr>) typ' [] =
      Inr (if ?v \<in> conflictNames [] then ?v @ NameConflictSuffix a else ?v, a\<lparr>ShortNameTypeMap := ?m\<rparr>)"
    by simp
  from 1 2 show ?thesis by blast
next
  case (Some v)
  have e: "a\<lparr>ShortNameTypeMap := ShortNameTypeMap a\<rparr> = a"
    by simp
  from shortname_hit[OF Some, of "[]" L]
  have "shortname L a typ' [] = Inr (if v \<in> conflictNames [] then v @ NameConflictSuffix a else v, a)"
    by simp
  then have "shortname L a typ' [] =
         Inr (if v \<in> conflictNames [] then v @ NameConflictSuffix a else v,
              a\<lparr>ShortNameTypeMap := ShortNameTypeMap a\<rparr>)
       \<and> shortname L (a\<lparr>ShortNameTypeMap := ShortNameTypeMap a\<rparr>) typ' [] =
         Inr (if v \<in> conflictNames [] then v @ NameConflictSuffix a else v,
              a\<lparr>ShortNameTypeMap := ShortNameTypeMap a\<rparr>)"
    by (simp only: e simp_thms)
  then show ?thesis by blast
qed

lemma modelToPB_eq:
  assumes "ModelToPB p" "shortname L a (TypeName (OptType p)) [] = Inr (sn, a')"
  shows "modelToPB L a p =
     Inr (fst (modelToPB_loop2 L a' p sn (TypeFields (OptType p))
                 (fst (modelToPB_loop1 L a' p sn (TypeFields (OptType p)) [] [])
                    @ ''proto'' @ TypeName (OptType p) @ '' := &''
                    @ goPackageName (ImportService (OptConfig p)) @ ''.''
                    @ TypeName (OptType p) @ ''{'' @ NL
                    @ TAB @ Join (snd (modelToPB_loop1 L a' p sn (TypeFields (OptType p)) [] [])) NL
                    @ NL @ ''}'' @ NL)
                 [])
            @ NL @ ''return proto'' @ TypeName (OptType p) @ '', nil'',
          map (nullWarning p) (filter (unmappedNullable a' p) (TypeFields (OptType p))),
          a')"
  using assms modelToPB_loop2_snd[of L a' p sn "TypeFields (OptType p)" _ "[]"]
  by (simp add: modelToPB_def split_def)

lemma PBToModel_eq:
  assumes "ModelToPB p" "shortname L a (TypeName (OptType p)) [] = Inr (sn, a')"
  shows "PBToModel L a p =
     Inr (fst (PBToModel_loop2 L a' p sn (TypeFields (OptType p))
                 (fst (PBToModel_loop1 L a' p (TypeFields (OptType p)) [] [])
                    @ sn @ '' := &'' @ TypeName (OptType p) @ ''{'' @ NL
                    @ TAB @ Join (snd (PBToModel_loop1 L a' p (TypeFields (OptType p)) [] [])) NL
                    @ NL @ ''}'' @ NL)
                 [])
            @ NL @ ''return '' @ sn @ '', nil'',
          map (nullWarning p) (filter (unmappedNullable a' p) (TypeFields (OptType p))),
          a')"
  using assms PBToModel_loop2_snd[of L a' p sn "TypeFields (OptType p)" _ "[]"]
  by (simp add: PBToModel_def split_def)

lemma unmappedNullable_cache [simp]:
  "unmappedNullable (a\<lparr>ShortNameTypeMap := m\<rparr>) = unmappedNullable a"
  by (intro ext) (simp add: unmappedNullable_def)

lemma modelToPB_logged:
  "logged (modelToPB L a p) =
     (if ModelToPB p then map (nullWarning p) (filter (unmappedNullable a p) (TypeFields (OptType p)))
      else [])"
proof (cases "ModelToPB p")
  case False
  then show ?thesis by (simp add: modelToPB_def logged_def)
next
  case True
  obtain v m where "shortname L a (TypeName (OptType p)) [] = Inr (v, a\<lparr>ShortNameTypeMap := m\<rparr>)"
    using shortname_no_scope[of L a "TypeName (OptType p)"] by blast
  from modelToPB_eq[OF True this] True show ?thesis
    by (simp add: logged_def)
qed

lemma PBToModel_logged:
  "logged (PBToModel L a p) =
     (if ModelToPB p then map (nullWarning p) (filter (unmappedNullable a p) (TypeFields (OptType p)))
      else [])"
proof (cases "ModelToPB p")
  case False
  then show ?thesis by (simp add: PBToModel_def logged_def)
next
  case True
  obtain v m where "shortname L a (TypeName (OptType p)) [] = Inr (v, a\<lparr>ShortNameTypeMap := m\<rparr>)"
    using shortname_no_scope[of L a "TypeName (OptType p)"] by blast
  from PBToModel_eq[OF True this] True show ?thesis
    by (simp add: logged_def)
qed

lemma modelToPB_generated_drop:
  assumes "unmappedNullable a p f" "TypeFields (OptType p) = xs @ f # ys"
  shows "generated (modelToPB L a p) = generated (modelToPB L a (withFields p (xs @ ys)))"
proof (cases "ModelToPB p")
  case False
  then show ?thesis by (simp add: modelToPB_def generated_def)
next
  case True
  obtain v m where s: "shortname L a (TypeName (OptType p)) [] = Inr (v, a\<lparr>ShortNameTypeMap := m\<rparr>)"
    using shortname_no_scope[of L a "TypeName (OptType p)"] by blast
  let ?a = "a\<lparr>ShortNameTypeMap := m\<rparr>"
  let ?q = "withFields p (xs @ ys)"
  have u: "unmappedNullable ?a p f" using assms(1) by simp
  then have n: "\<not> NotNull (Col f)" "Type f \<noteq> ''[]byte''"
    by (simp_all add: unmappedNullable_def)
  have s': "shortname L a (TypeName (OptType ?q)) [] = Inr (v, ?a)"
    using s by simp
  have l1: "modelToPB_loop1 L ?a ?q v (xs @ ys) [] [] = modelToPB_loop1 L ?a p v (xs @ f # ys) [] []"
    using modelToPB_loop1_option[of ?q p L ?a v "xs @ ys" "[]" "[]"]
      modelToPB_loop1_drop[OF n, of L ?a p v xs ys "[]" "[]"] by simp
  have l2: "fst (modelToPB_loop2 L ?a ?q v (xs @ ys) b []) = fst (modelToPB_loop2 L ?a p v (xs @ f # ys) b [])"
    for b
    using modelToPB_loop2_option[of ?q p L ?a v "xs @ ys" b "[]"]
      modelToPB_loop2_drop[OF u, of L v xs ys b "[]"] by simp
  have "ModelToPB ?q" using True by simp
  from modelToPB_eq[OF True s] modelToPB_eq[OF this s'] show ?thesis
    by (simp add: generated_def assms(2) l1 l2)
qed

lemma PBToModel_generated_drop:
  assumes "unmappedNullable a p f" "TypeFields (OptType p) = xs @ f # ys"
  shows "generated (PBToModel L a p) = generated (PBToModel L a (withFields p (xs @ ys)))"
proof (cases "ModelToPB p")
  case False
  then show ?thesis by (simp add: PBToModel_def generated_def)
next
  case True
  obtain v m where s: "shortname L a (TypeName (OptType p)) [] = Inr (v, a\<lparr>ShortNameTypeMap := m\<rparr>)"
    using shortname_no_scope[of L a "TypeName (OptType p)"] by blast
  let ?a = "a\<lparr>ShortNameTypeMap := m\<rparr>"
  let ?q = "withFields p (xs @ ys)"
  have u: "unmappedNullable ?a p f" using assms(1) by simp
  then have n: "\<not> NotNull (Col f)" "Type f \<noteq> ''[]byte''"
    by (simp_all add: unmappedNullable_def)
  have s': "shortname L a (TypeName (OptType ?q)) [] = Inr (v, ?a)"
    using s by simp
  have l1: "PBToModel_loop1 L ?a ?q (xs @ ys) [] [] = PBToModel_loop1 L ?a p (xs @ f # ys) [] []"
    using PBToModel_loop1_option[of ?q p L ?a "xs @ ys" "[]" "[]"]
      PBToModel_loop1_drop[OF n, of L ?a p xs ys "[]" "[]"] by simp
  have l2: "fst (PBToModel_loop2 L ?a ?q v (xs @ ys) b []) = fst (PBToModel_loop2 L ?a p v (xs @ f # ys) b [])"
    for b
    using PBToModel_loop2_option[of ?q p L ?a v "xs @ ys" b "[]"]
      PBToModel_loop2_drop[OF u, of L v xs ys b "[]"] by simp
  have "ModelToPB ?q" using True by simp
  from PBToModel_eq[OF True s] PBToModel_eq[OF this s'] show ?thesis
    by (simp add: generated_def assms(2) l1 l2)
qed

text \<open>
  Claim C4. A nullable field that is not skipped, is not of type \<open>[]byte\<close> or
  \<open>mysql.NullTime\<close> and has no entry in \<open>WrapperTypeMap\<close> is declared in the message of its
  type, with the number of its position among the fields that are not skipped; both
  conversion bodies are the text they are for the type without the field, so they hold no
  statement for it; and each of \<open>modelToPB\<close> and \<open>PBToModel\<close> logs, when
  \<open>option.ModelToPB\<close> is set, exactly one warning for each such field, in field order, and
  nothing otherwise. Neither function panics.
\<close>

theorem unmapped_nullable_field:
  "(unmappedNullable a option f \<and> TypeFields (OptType option) = xs @ f # ys \<longrightarrow>
      proto_def a f (int (length [g \<leftarrow> xs. ColumnName (Col g) \<notin> SkipFields (OptConfig option)]) + 1)
        \<in> set (proto_fieldsDef a option (TypeFields (OptType option)) [] 1)
      \<and> generated (modelToPB L a option) = generated (modelToPB L a (withFields option (xs @ ys)))
      \<and> generated (PBToModel L a option) = generated (PBToModel L a (withFields option (xs @ ys))))
   \<and> (\<exists>r. modelToPB L a option = Inr r) \<and> (\<exists>r. PBToModel L a option = Inr r)
   \<and> logged (modelToPB L a option)
       = (if ModelToPB option
          then map (nullWarning option) (filter (unmappedNullable a option) (TypeFields (OptType option)))
          else [])
   \<and> logged (PBToModel L a option)
       = (if ModelToPB option
          then map (nullWarning option) (filter (unmappedNullable a option) (TypeFields (OptType option)))
          else [])"
proof (intro conjI impI)
  assume h: "unmappedNullable a option f \<and> TypeFields (OptType option) = xs @ f # ys"
  let ?kx = "[g \<leftarrow> xs. ColumnName (Col g) \<notin> SkipFields (OptConfig option)]"
  let ?ky = "[g \<leftarrow> ys. ColumnName (Col g) \<notin> SkipFields (OptConfig option)]"
  from h have k: "[g \<leftarrow> xs @ f # ys. ColumnName (Col g) \<notin> SkipFields (OptConfig option)] = ?kx @ f # ?ky"
    by (simp add: unmappedNullable_def)
  have "proto_fieldsDef a option (xs @ f # ys) [] 1
      = map (\<lambda>(k, f). proto_def a f (1 + int k)) (enumerate 0 ?kx)
        @ map (\<lambda>(k, f). proto_def a f (1 + int (length ?kx + k))) (enumerate 0 (f # ?ky))"
    unfolding proto_fieldsDef_eq k
    using map_enumerate_append[of "\<lambda>k f. proto_def a f (1 + int k)" ?kx "f # ?ky"] by simp
  then show "proto_def a f (int (length ?kx) + 1)
        \<in> set (proto_fieldsDef a option (TypeFields (OptType option)) [] 1)"
    using h by (simp add: add.commute)
  from h show "generated (modelToPB L a option) = generated (modelToPB L a (withFields option (xs @ ys)))"
    using modelToPB_generated_drop[of a option f xs ys L] by blast
  from h show "generated (PBToModel L a option) = generated (PBToModel L a (withFields option (xs @ ys)))"
    using PBToModel_generated_drop[of a option f xs ys L] by blast
next
  obtain v m where
    s: "shortname L a (TypeName (OptType option)) [] = Inr (v, a\<lparr>ShortNameTypeMap := m\<rparr>)"
    using shortname_no_scope[of L a "TypeName (OptType option)"] by blast
  show "\<exists>r. modelToPB L a option = Inr r"
  proof (cases "ModelToPB option")
    case True
    from modelToPB_eq[OF True s] show ?thesis by blast
  next
    case False
    then show ?thesis by (simp add: modelToPB_def)
  qed
  show "\<exists>r. PBToModel L a option = Inr r"
  proof (cases "ModelToPB option")
    case True
    from PBToModel_eq[OF True s] show ?thesis by blast
  next
    case False
    then show ?thesis by (simp add: PBToModel_def)
  qed
next
  show "logged (modelToPB L a option)
       = (if ModelToPB option
          then map (nullWarning option) (filter (unmappedNullable a option) (TypeFields (OptType option)))
          else [])"
    by (rule modelToPB_logged)
  show "logged (PBToModel L a option)
       = (if ModelToPB option
          then map (nullWarning option) (filter (unmappedNullable a option) (TypeFields (OptType option)))
          else [])"
    by (rule PBToModel_logged)
qed

theorem unmapped_nullable_field_witness:
  "unmappedNullable exArgs exAccount (exField ''Mood'' ''Mood'' ''mood'' False)
   \<and> TypeFields (OptType exAccount)
       = [exField ''ID'' ''int'' ''id'' True, exField ''Nick'' ''sql.NullString'' ''nick'' False]
         @ exField ''Mood'' ''Mood'' ''mood'' False
         # [exField ''CreatedAt'' ''time.Time'' ''created_at'' True]
   \<and> TAB @ ''Mood mood = 2;'' \<in> set (proto_fieldsDef exArgs exAccount (TypeFields (OptType exAccount)) [] 1)
   \<and> generated (modelToPB exLib exArgs exAccount)
       = generated (modelToPB exLib exArgs
           (withFields exAccount
              ([exField ''ID'' ''int'' ''id'' True, exField ''Nick'' ''sql.NullString'' ''nick'' False]
               @ [exField ''CreatedAt'' ''time.Time'' ''created_at'' True])))
   \<and> generated (PBToModel exLib exArgs exAccount)
       = generated (PBToModel exLib exArgs
           (withFields exAccount
              ([exField ''ID'' ''int'' ''id'' True, exField ''Nick'' ''sql.NullString'' ''nick'' False]
               @ [exField ''CreatedAt'' ''time.Time'' ''created_at'' True])))"
proof -
  have h: "unmappedNullable exArgs exAccount (exField ''Mood'' ''Mood'' ''mood'' False)
   \<and> TypeFields (OptType exAccount)
       = [exField ''ID'' ''int'' ''id'' True, exField ''Nick'' ''sql.NullString'' ''nick'' False]
         @ exField ''Mood'' ''Mood'' ''mood'' False
         # [exField ''CreatedAt'' ''time.Time'' ''created_at'' True]"
    by (simp add: unmappedNullable_def exAccount_def ex_defs)
  note r = unmapped_nullable_field[where a = exArgs and option = exAccount and L = exLib
      and f = "exField ''Mood'' ''Mood'' ''mood'' False"
      and xs = "[exField ''ID'' ''int'' ''id'' True, exField ''Nick'' ''sql.NullString'' ''nick'' False]"
      and ys = "[exField ''CreatedAt'' ''time.Time'' ''created_at'' True]",
      THEN conjunct1, THEN mp, OF h]
  have d: "proto_def exArgs (exField ''Mood'' ''Mood'' ''mood'' False) 2 = TAB @ ''Mood mood = 2;''"
    by (simp add: proto_def_def ex_defs Itoa_def Let_def digit_def)
  have n: "int (length [g \<leftarrow> [exField ''ID'' ''int'' ''id'' True,
                                exField ''Nick'' ''sql.NullString'' ''nick'' False].
                       ColumnName (Col g) \<notin> SkipFields (OptConfig exAccount)]) + 1 = 2"
    by (simp add: exAccount_def ex_defs)
  from r h show ?thesis
    unfolding n d by (simp only: simp_thms)
qed

text \<open>
  Both functions log, so a run that generates both bodies records two warnings for the
  field, not one: here \<open>PBToModel\<close> is called in the state \<open>modelToPB\<close> leaves.
\<close>

theorem unmapped_nullable_field_counterexample:
  "logged (modelToPB exLib exArgs exAccount) = [''WARN: Account.Mood could be null, skipping!'']
   \<and> map_sum id (\<lambda>r. snd (snd r)) (modelToPB exLib exArgs exAccount)
       = Inr (exArgs\<lparr>ShortNameTypeMap := [''Account'' \<mapsto> ''a'']\<rparr>)
   \<and> logged (PBToModel exLib (exArgs\<lparr>ShortNameTypeMap := [''Account'' \<mapsto> ''a'']\<rparr>) exAccount)
       = [''WARN: Account.Mood could be null, skipping!'']"
proof -
  have l: "map (nullWarning exAccount) (filter (unmappedNullable a exAccount) (TypeFields (OptType exAccount)))
      = [''WARN: Account.Mood could be null, skipping!'']"
    if "WrapperTypeMap a = WrapperTypeMap exArgs" for a
    using that by (simp add: unmappedNullable_def nullWarning_def exAccount_def ex_defs)
  have m: "ModelToPB exAccount"
    by (simp add: exAccount_def)
  have i: "initials exLib ''Account'' = ''a''"
    by (simp add: initials_def exLib_def asciiLower_def)
  have r: "safeName ''a'' = ''a''"
    by (simp add: safeName_def goReservedNames_def goReservedTable_def)
  have c: "ShortNameTypeMap exArgs ''Account'' = None"
    by (simp add: exArgs_def)
  have s: "shortname exLib exArgs (TypeName (OptType exAccount)) []
      = Inr (''a'', exArgs\<lparr>ShortNameTypeMap := [''Account'' \<mapsto> ''a'']\<rparr>)"
    using shortname_miss[OF c, of "[]" exLib]
    by (simp add: i r conflictNames_def exAccount_def) (simp add: exArgs_def)
  have 1: "logged (modelToPB exLib exArgs exAccount) = [''WARN: Account.Mood could be null, skipping!'']"
    by (simp add: modelToPB_logged m l)
  have 2: "map_sum id (\<lambda>r. snd (snd r)) (modelToPB exLib exArgs exAccount)
       = Inr (exArgs\<lparr>ShortNameTypeMap := [''Account'' \<mapsto> ''a'']\<rparr>)"
    by (simp add: modelToPB_eq[OF m s])
  have 3: "logged (PBToModel exLib (exArgs\<lparr>ShortNameTypeMap := [''Account'' \<mapsto> ''a'']\<rparr>) exAccount)
       = [''WARN: Account.Mood could be null, skipping!'']"
    by (simp add: PBToModel_logged m l)
  from 1 2 3 show ?thesis by (simp only: simp_thms)
qed

section \<open>Repeated generation\<close>


lemma proto_def_cache [simp]: "proto_def (a\<lparr>ShortNameTypeMap := m\<rparr>) = proto_def a"
  by (intro ext) (simp add: proto_def_def)

lemma proto_message_cache [simp]: "proto_message (a\<lparr>ShortNameTypeMap := m\<rparr>) = proto_message a"
  by (intro ext) (simp add: proto_message_def proto_fieldsDef_eq)

lemma proto_imports_fields_cache [simp]:
  "proto_imports_fields (a\<lparr>ShortNameTypeMap := m\<rparr>) p fs imps seen
     = proto_imports_fields a p fs imps seen"
  by (induction fs arbitrary: imps seen) (simp_all split: option.split)

lemma proto_imports_cache [simp]:
  "proto_imports (a\<lparr>ShortNameTypeMap := m\<rparr>) ps imps seen = proto_imports a ps imps seen"
  by (induction ps arbitrary: imps seen) (simp_all split: prod.split)



end
